theory Spec2Isabelle
  imports Complex_Main
begin

section \<open>Numbers, constants and unit conversion\<close>

text \<open>
  Python floats are modelled as reals: the arithmetic is exact and there is no NaN.
  The one infinite value the program uses, \<^verbatim>\<open>float('inf')\<close> as the initial
  best error, is modelled by \<open>None\<close> in a \<open>real option\<close>. One rounding is
  written out, because the range of a result depends on it: the addition inside the float
  operator \<^verbatim>\<open>%\<close>, whose rounding to a float is a parameter of \<open>py_mod\<close>.
\<close>

definition MAX_ITERATIONS :: nat where
  "MAX_ITERATIONS = 200"

definition DISTANCE_TOLERANCE_M :: real where
  "DISTANCE_TOLERANCE_M = 1"

definition METERS_PER_NM :: real where
  "METERS_PER_NM = 1852"

definition meters_to_nm :: "real \<Rightarrow> real" where
  "meters_to_nm meters = meters / METERS_PER_NM"

definition nm_to_meters :: "real \<Rightarrow> real" where
  "nm_to_meters nm = nm * METERS_PER_NM"

text \<open>Python's \<^verbatim>\<open>int(x)\<close> on a float truncates towards zero.\<close>

definition py_int :: "real \<Rightarrow> int" where
  "py_int x = (if 0 \<le> x then \<lfloor>x\<rfloor> else \<lceil>x\<rceil>)"

text \<open>
  The remainder of the C library that the float operator \<^verbatim>\<open>%\<close> starts from:
  \<open>x\<close> minus \<open>m\<close> times the truncated quotient. It is computed without rounding and
  has the sign of \<open>x\<close>.
\<close>

definition fmod :: "real \<Rightarrow> real \<Rightarrow> real" where
  "fmod x m = x - m * of_int (py_int (x / m))"

text \<open>
  Python's \<^verbatim>\<open>x % m\<close> on floats, for a modulus other than zero (the program's
  is 360): a remainder that is not zero and whose sign differs from that of \<open>m\<close> is
  moved by \<open>m\<close>, and this sum is a float addition, rounded by \<open>rnd\<close>; a zero
  remainder stays zero.
\<close>

definition py_mod :: "(real \<Rightarrow> real) \<Rightarrow> real \<Rightarrow> real \<Rightarrow> real" where
  "py_mod rnd x m =
     (let r = fmod x m
      in if r \<noteq> 0 then (if (m < 0) \<noteq> (r < 0) then rnd (r + m) else r)
         else 0)"

text \<open>\<^verbatim>\<open>e < best\<close> where \<open>best\<close> may still be \<^verbatim>\<open>float('inf')\<close>.\<close>

fun less_inf :: "real \<Rightarrow> real option \<Rightarrow> bool" where
  "less_inf e None = True"
| "less_inf e (Some b) = (e < b)"

section \<open>Coordinates\<close>

datatype error = LatitudeOutOfRange real | LongitudeOutOfRange real

record Coordinates =
  lat :: real
  lon :: real

text \<open>
  \<^verbatim>\<open>Coordinates(lat, lon)\<close> of \<^verbatim>\<open>vor_fix_calculation.py\<close>: the dataclass
  constructor followed by \<^verbatim>\<open>__post_init__\<close>, which raises ValueError; longitude
  in \<open>(-180, 180]\<close>.
\<close>

definition new_Coordinates :: "real \<Rightarrow> real \<Rightarrow> error + Coordinates" where
  "new_Coordinates la lo =
     (if \<not> (-90 \<le> la \<and> la \<le> 90) then Inl (LatitudeOutOfRange la)
      else if \<not> (-180 < lo \<and> lo \<le> 180) then Inl (LongitudeOutOfRange lo)
      else Inr \<lparr>lat = la, lon = lo\<rparr>)"

text \<open>The same constructor in \<^verbatim>\<open>core_vor_calc.py\<close>: longitude in \<open>[-180, 180]\<close>.\<close>

definition new_Coordinates_core :: "real \<Rightarrow> real \<Rightarrow> error + Coordinates" where
  "new_Coordinates_core la lo =
     (if \<not> (-90 \<le> la \<and> la \<le> 90) then Inl (LatitudeOutOfRange la)
      else if \<not> (-180 \<le> lo \<and> lo \<le> 180) then Inl (LongitudeOutOfRange lo)
      else Inr \<lparr>lat = la, lon = lo\<rparr>)"

section \<open>Radius letter\<close>

text \<open>\<^verbatim>\<open>get_radius_letter\<close> of \<^verbatim>\<open>vor_fix_calculation.py\<close>: half-open buckets.\<close>

definition ranges :: "(real \<times> real \<times> char) list" where
  "ranges =
    [(0.1, 1.5, CHR ''A''), (1.5, 2.5, CHR ''B''), (2.5, 3.5, CHR ''C''), (3.5, 4.5, CHR ''D''),
     (4.5, 5.5, CHR ''E''), (5.5, 6.5, CHR ''F''), (6.5, 7.5, CHR ''G''), (7.5, 8.5, CHR ''H''),
     (8.5, 9.5, CHR ''I''), (9.5, 10.5, CHR ''J''), (10.5, 11.5, CHR ''K''), (11.5, 12.5, CHR ''L''),
     (12.5, 13.5, CHR ''M''), (13.5, 14.5, CHR ''N''), (14.5, 15.5, CHR ''O''), (15.5, 16.5, CHR ''P''),
     (16.5, 17.5, CHR ''Q''), (17.5, 18.5, CHR ''R''), (18.5, 19.5, CHR ''S''), (19.5, 20.5, CHR ''T''),
     (20.5, 21.5, CHR ''U''), (21.5, 22.5, CHR ''V''), (22.5, 23.5, CHR ''W''), (23.5, 24.5, CHR ''X''),
     (24.5, 25.5, CHR ''Y''), (25.5, 26.5, CHR ''Z'')]"

text \<open>The \<^verbatim>\<open>for low, high, letter in ranges\<close> loop: the first bucket that holds the distance.\<close>

fun first_range :: "(real \<times> real \<times> char) list \<Rightarrow> real \<Rightarrow> char option" where
  "first_range [] distance_nm = None"
| "first_range ((low, high, letter) # rest) distance_nm =
     (if low \<le> distance_nm \<and> distance_nm < high then Some letter
      else first_range rest distance_nm)"

definition get_radius_letter :: "real \<Rightarrow> char" where
  "get_radius_letter distance_nm =
     (case first_range ranges distance_nm of
        Some letter \<Rightarrow> letter
      | None \<Rightarrow> if distance_nm < 0.1 then CHR ''A'' else CHR ''Z'')"

text \<open>
  The earlier revisions of \<^verbatim>\<open>get_radius_letter\<close> (all six in
  \<^verbatim>\<open>unnamed/part_000\<close>): closed buckets with gaps between them, and \<open>Z\<close> as the
  only fallback.
\<close>

definition ranges_closed :: "(real \<times> real \<times> char) list" where
  "ranges_closed =
    [(0.1, 1.4, CHR ''A''), (1.5, 2.4, CHR ''B''), (2.5, 3.4, CHR ''C''), (3.5, 4.4, CHR ''D''),
     (4.5, 5.4, CHR ''E''), (5.5, 6.4, CHR ''F''), (6.5, 7.4, CHR ''G''), (7.5, 8.4, CHR ''H''),
     (8.5, 9.4, CHR ''I''), (9.5, 10.4, CHR ''J''), (10.5, 11.4, CHR ''K''), (11.5, 12.4, CHR ''L''),
     (12.5, 13.4, CHR ''M''), (13.5, 14.4, CHR ''N''), (14.5, 15.4, CHR ''O''), (15.5, 16.4, CHR ''P''),
     (16.5, 17.4, CHR ''Q''), (17.5, 18.4, CHR ''R''), (18.5, 19.4, CHR ''S''), (19.5, 20.4, CHR ''T''),
     (20.5, 21.4, CHR ''U''), (21.5, 22.4, CHR ''V''), (22.5, 23.4, CHR ''W''), (23.5, 24.4, CHR ''X''),
     (24.5, 25.4, CHR ''Y''), (25.5, 26.4, CHR ''Z'')]"

fun first_range_closed :: "(real \<times> real \<times> char) list \<Rightarrow> real \<Rightarrow> char option" where
  "first_range_closed [] distance_nm = None"
| "first_range_closed ((low, high, letter) # rest) distance_nm =
     (if low \<le> distance_nm \<and> distance_nm \<le> high then Some letter
      else first_range_closed rest distance_nm)"

definition get_radius_letter_closed :: "real \<Rightarrow> char" where
  "get_radius_letter_closed distance_nm =
     (case first_range_closed ranges_closed distance_nm of
        Some letter \<Rightarrow> letter
      | None \<Rightarrow> CHR ''Z'')"

section \<open>The geodesy oracle\<close>

text \<open>
  \<^verbatim>\<open>GEODESIC = Geodesic.WGS84\<close> is a library object; the program only calls its
  \<^verbatim>\<open>Direct\<close> and \<^verbatim>\<open>Inverse\<close> methods and reads the keys \<^verbatim>\<open>lat2\<close>,
  \<^verbatim>\<open>lon2\<close>, \<^verbatim>\<open>s12\<close> and \<^verbatim>\<open>azi1\<close> of the dictionaries they return. It is a
  parameter of every function that uses it.
\<close>

record direct_result =
  lat2 :: real
  lon2 :: real

record inverse_result =
  s12 :: real
  azi1 :: real

record geodesic =
  Direct :: "real \<Rightarrow> real \<Rightarrow> real \<Rightarrow> real \<Rightarrow> direct_result"
  Inverse :: "real \<Rightarrow> real \<Rightarrow> real \<Rightarrow> real \<Rightarrow> inverse_result"

text \<open>The calls a function makes to the oracle, in order.\<close>

datatype oracle_call =
  DirectCall real real real real
| InverseCall real real real real

section \<open>Forward projection (\<^verbatim>\<open>vor_fix_calculation.py\<close>)\<close>

text \<open>
  The \<^verbatim>\<open>for _ in range(num_steps)\<close> loop of the multi-step branch: each step starts
  where the previous one ended, and \<^verbatim>\<open>Coordinates(...)\<close> may raise at any step.
\<close>

fun multi_step ::
  "geodesic \<Rightarrow> real \<Rightarrow> real \<Rightarrow> nat \<Rightarrow> Coordinates \<Rightarrow> (error + Coordinates) \<times> oracle_call list"
where
  "multi_step g azimuth step_distance 0 step_coords = (Inr step_coords, [])"
| "multi_step g azimuth step_distance (Suc n) step_coords =
     (let step_result = Direct g (lat step_coords) (lon step_coords) azimuth step_distance;
          call = DirectCall (lat step_coords) (lon step_coords) azimuth step_distance
      in case new_Coordinates (lat2 step_result) (lon2 step_result) of
           Inl e \<Rightarrow> (Inl e, [call])
         | Inr next_coords \<Rightarrow>
             (case multi_step g azimuth step_distance n next_coords of
                (res, calls) \<Rightarrow> (res, call # calls)))"

definition calculate_target_coords_geodesic ::
  "geodesic \<Rightarrow> Coordinates \<Rightarrow> real \<Rightarrow> real \<Rightarrow> (error + Coordinates) \<times> oracle_call list"
where
  "calculate_target_coords_geodesic g start_coords azimuth distance_nm =
     (let distance_m = nm_to_meters distance_nm;
          result = Direct g (lat start_coords) (lon start_coords) azimuth distance_m;
          verification =
            Inverse g (lat start_coords) (lon start_coords) (lat2 result) (lon2 result);
          actual_distance_m = s12 verification;
          distance_error_m = \<bar>actual_distance_m - distance_m\<bar>;
          calls =
            [DirectCall (lat start_coords) (lon start_coords) azimuth distance_m,
             InverseCall (lat start_coords) (lon start_coords) (lat2 result) (lon2 result)];
          single = (new_Coordinates (lat2 result) (lon2 result), calls)
      in if distance_error_m > 0.1 then
           (let num_steps = max 1 (py_int (distance_nm / 500))
            in if num_steps > 1 then
                 (let step_distance = distance_m / of_int num_steps
                  in case multi_step g azimuth step_distance (nat num_steps) start_coords of
                       (res, step_calls) \<Rightarrow> (res, calls @ step_calls))
               else single)
         else single)"

section \<open>Forward projection as the specification words it\<close>

text \<open>
  Section 4.1 of the specification, for comparison with
  \<^verbatim>\<open>calculate_target_coords_geodesic\<close>: \<open>numSteps\<close> consecutive forward calls of
  the same length and bearing, each starting where the one before ended.
\<close>

fun walk_spec :: "geodesic \<Rightarrow> real \<Rightarrow> real \<Rightarrow> nat \<Rightarrow> Coordinates \<Rightarrow> error + Coordinates" where
  "walk_spec g trueBearing stepM 0 origin = Inr origin"
| "walk_spec g trueBearing stepM (Suc n) origin =
     (let r = Direct g (lat origin) (lon origin) trueBearing stepM
      in case new_Coordinates (lat2 r) (lon2 r) of
           Inl e \<Rightarrow> Inl e
         | Inr destination \<Rightarrow> walk_spec g trueBearing stepM n destination)"


section \<open>Forward projection (\<^verbatim>\<open>core_vor_calc.py\<close>)\<close>

text \<open>
  The variant of \<^verbatim>\<open>calculate_target_coords_geodesic\<close> in \<^verbatim>\<open>core_vor_calc.py\<close>: the
  single-step point is built before the verification, the threshold is
  \<^verbatim>\<open>DISTANCE_TOLERANCE_M\<close>, and the longer path tries the step sizes 100, 250, 500 and
  1000 km in turn, keeping the most accurate end point.
\<close>

fun multi_step_core ::
  "geodesic \<Rightarrow> real \<Rightarrow> real \<Rightarrow> nat \<Rightarrow> Coordinates \<Rightarrow> (error + Coordinates) \<times> oracle_call list"
where
  "multi_step_core g azimuth step_distance 0 step_coords = (Inr step_coords, [])"
| "multi_step_core g azimuth step_distance (Suc n) step_coords =
     (let step_result = Direct g (lat step_coords) (lon step_coords) azimuth step_distance;
          call = DirectCall (lat step_coords) (lon step_coords) azimuth step_distance
      in case new_Coordinates_core (lat2 step_result) (lon2 step_result) of
           Inl e \<Rightarrow> (Inl e, [call])
         | Inr next_coords \<Rightarrow>
             (case multi_step_core g azimuth step_distance n next_coords of
                (res, calls) \<Rightarrow> (res, call # calls)))"

text \<open>The \<^verbatim>\<open>for step_size_km in step_sizes\<close> loop, over the step sizes still to try.\<close>

fun step_size_loop ::
  "real list \<Rightarrow> geodesic \<Rightarrow> Coordinates \<Rightarrow> real \<Rightarrow> real \<Rightarrow> real \<Rightarrow> Coordinates \<Rightarrow> real
     \<Rightarrow> (error + Coordinates) \<times> oracle_call list"
where
  "step_size_loop [] g start_coords azimuth distance_nm distance_m optimal_coords min_error =
     (Inr optimal_coords, [])"
| "step_size_loop (step_size_km # rest) g start_coords azimuth distance_nm distance_m
       optimal_coords min_error =
     (if distance_nm < step_size_km / 1.852 then
        step_size_loop rest g start_coords azimuth distance_nm distance_m optimal_coords min_error
      else
        (let num_steps = max 2 (py_int (distance_nm * 1.852 / step_size_km));
             step_distance = distance_m / of_int num_steps
         in case multi_step_core g azimuth step_distance (nat num_steps) start_coords of
              (Inl e, calls) \<Rightarrow> (Inl e, calls)
            | (Inr step_coords, calls) \<Rightarrow>
                (let final_verification =
                       Inverse g (lat start_coords) (lon start_coords)
                         (lat step_coords) (lon step_coords);
                     final_distance_error = \<bar>s12 final_verification - distance_m\<bar>;
                     calls1 = calls @
                       [InverseCall (lat start_coords) (lon start_coords)
                          (lat step_coords) (lon step_coords)]
                 in if final_distance_error < min_error then
                      (if final_distance_error \<le> DISTANCE_TOLERANCE_M
                       then (Inr step_coords, calls1)
                       else
                         (case step_size_loop rest g start_coords azimuth distance_nm
                                 distance_m step_coords final_distance_error of
                            (res, calls2) \<Rightarrow> (res, calls1 @ calls2)))
                    else
                      (case step_size_loop rest g start_coords azimuth distance_nm
                              distance_m optimal_coords min_error of
                         (res, calls2) \<Rightarrow> (res, calls1 @ calls2)))))"

definition calculate_target_coords_geodesic_core ::
  "geodesic \<Rightarrow> Coordinates \<Rightarrow> real \<Rightarrow> real \<Rightarrow> (error + Coordinates) \<times> oracle_call list"
where
  "calculate_target_coords_geodesic_core g start_coords azimuth distance_nm =
     (let distance_m = nm_to_meters distance_nm;
          result = Direct g (lat start_coords) (lon start_coords) azimuth distance_m;
          call1 = DirectCall (lat start_coords) (lon start_coords) azimuth distance_m
      in case new_Coordinates_core (lat2 result) (lon2 result) of
           Inl e \<Rightarrow> (Inl e, [call1])
         | Inr initial_coords \<Rightarrow>
             (let verification =
                    Inverse g (lat start_coords) (lon start_coords) (lat2 result) (lon2 result);
                  actual_distance_m = s12 verification;
                  distance_error_m = \<bar>actual_distance_m - distance_m\<bar>;
                  calls =
                    [call1,
                     InverseCall (lat start_coords) (lon start_coords)
                       (lat2 result) (lon2 result)]
              in if distance_error_m \<le> DISTANCE_TOLERANCE_M then (Inr initial_coords, calls)
                 else
                   (case step_size_loop [100, 250, 500, 1000] g start_coords azimuth
                           distance_nm distance_m initial_coords distance_error_m of
                      (res, step_calls) \<Rightarrow> (res, calls @ step_calls))))"

section \<open>Accuracy validation (\<^verbatim>\<open>core_vor_calc.py\<close>)\<close>

datatype rating = EXCELLENT | VERY_GOOD | GOOD | ACCEPTABLE | POOR

definition calculate_accuracy_rating :: "real \<Rightarrow> real \<Rightarrow> rating" where
  "calculate_accuracy_rating distance_error_m azimuth_error_deg =
     (if distance_error_m \<le> 1.0 \<and> azimuth_error_deg \<le> 0.001 then EXCELLENT
      else if distance_error_m \<le> 5.0 \<and> azimuth_error_deg \<le> 0.01 then VERY_GOOD
      else if distance_error_m \<le> 10.0 \<and> azimuth_error_deg \<le> 0.1 then GOOD
      else if distance_error_m \<le> 50.0 \<and> azimuth_error_deg \<le> 1.0 then ACCEPTABLE
      else POOR)"

record accuracy =
  distance_error_nm :: real
  distance_error_m :: real
  azimuth_error_deg :: real
  actual_distance_nm :: real
  actual_azimuth_deg :: real
  accuracy_rating :: rating

text \<open>
  \<^verbatim>\<open>validate_calculation_accuracy\<close>; \<open>rnd\<close> is the rounding of the addition
  inside the two \<^verbatim>\<open>% 360\<close>.
\<close>

definition validate_calculation_accuracy ::
  "(real \<Rightarrow> real) \<Rightarrow> geodesic \<Rightarrow> Coordinates \<Rightarrow> Coordinates \<Rightarrow> real \<Rightarrow> real \<Rightarrow> accuracy"
where
  "validate_calculation_accuracy rnd g start_coords end_coords expected_azimuth
       expected_distance_nm =
     (let result = Inverse g (lat start_coords) (lon start_coords) (lat end_coords) (lon end_coords);
          actual_distance_m = s12 result;
          actual_distance_nm = meters_to_nm actual_distance_m;
          actual_azimuth = py_mod rnd (azi1 result) 360;
          expected_azimuth = py_mod rnd expected_azimuth 360;
          azimuth_diff = \<bar>actual_azimuth - expected_azimuth\<bar>;
          azimuth_diff = min azimuth_diff (360 - azimuth_diff);
          distance_error_nm = \<bar>actual_distance_nm - expected_distance_nm\<bar>;
          distance_error_m = \<bar>actual_distance_m - nm_to_meters expected_distance_nm\<bar>
      in \<lparr>distance_error_nm = distance_error_nm,
          distance_error_m = distance_error_m,
          azimuth_error_deg = azimuth_diff,
          actual_distance_nm = actual_distance_nm,
          actual_azimuth_deg = actual_azimuth,
          accuracy_rating = calculate_accuracy_rating distance_error_m azimuth_diff\<rparr>)"

record precision_metrics =
  mean_distance_error_m :: real
  max_distance_error_m :: real
  min_distance_error_m :: real
  mean_azimuth_error_deg :: real
  max_azimuth_error_deg :: real
  min_azimuth_error_deg :: real
  total_calculations :: nat

text \<open>
  \<^verbatim>\<open>calculate_precision_metrics\<close>: the empty list returns before any list is built;
  otherwise both error lists have one entry per calculation, so \<^verbatim>\<open>max\<close>,
  \<^verbatim>\<open>min\<close> and the division by \<^verbatim>\<open>len\<close> are on non-empty lists.
\<close>

definition calculate_precision_metrics ::
  "(real \<Rightarrow> real) \<Rightarrow> geodesic \<Rightarrow> (Coordinates \<times> Coordinates \<times> real \<times> real) list
     \<Rightarrow> precision_metrics"
where
  "calculate_precision_metrics rnd g calculations =
     (if calculations = [] then
        \<lparr>mean_distance_error_m = 0, max_distance_error_m = 0, min_distance_error_m = 0,
         mean_azimuth_error_deg = 0, max_azimuth_error_deg = 0, min_azimuth_error_deg = 0,
         total_calculations = 0\<rparr>
      else
        (let metrics =
               map (\<lambda>(start_coords, end_coords, expected_azimuth, expected_distance_nm).
                      validate_calculation_accuracy rnd g start_coords end_coords
                        expected_azimuth expected_distance_nm) calculations;
             distance_errors = map distance_error_m metrics;
             azimuth_errors = map azimuth_error_deg metrics
         in \<lparr>mean_distance_error_m = sum_list distance_errors / real (length distance_errors),
             max_distance_error_m = Max (set distance_errors),
             min_distance_error_m = Min (set distance_errors),
             mean_azimuth_error_deg = sum_list azimuth_errors / real (length azimuth_errors),
             max_azimuth_error_deg = Max (set azimuth_errors),
             min_azimuth_error_deg = Min (set azimuth_errors),
             total_calculations = length calculations\<rparr>))"

section \<open>Radial/distance intersection (\<^verbatim>\<open>vor_fix_calculation.py\<close>)\<close>

text \<open>
  The search range of \<^verbatim>\<open>_find_radial_distance_intersection\<close>, computed from the
  distance between FIX and DME and the target distance, both in nautical miles; the last
  \<^verbatim>\<open>if\<close> replaces an empty range by the default one.
\<close>

definition search_range :: "real \<Rightarrow> real \<Rightarrow> real \<times> real" where
  "search_range fix_dme_distance_nm distance_nm =
     (let (min_dist, max_dist) =
            (if distance_nm < 0.05 then (0.0, 0.2)
             else if distance_nm < 0.5 then (0.0, max 1.0 (distance_nm * 2))
             else (max 0.0 (fix_dme_distance_nm - distance_nm - 1),
                   fix_dme_distance_nm + distance_nm + 1))
      in if min_dist \<ge> max_dist then (0.0, max 1.0 (distance_nm * 2))
         else (min_dist, max_dist))"

text \<open>
  The same range in the revision of \<^verbatim>\<open>find_radial_distance_intersection\<close> with the
  stagnation correction (\<^verbatim>\<open>unnamed/part_000\<close>, lines 3635 to 3645): no check of the
  range follows.
\<close>

definition search_range_unchecked :: "real \<Rightarrow> real \<Rightarrow> real \<times> real" where
  "search_range_unchecked fix_dme_distance_nm distance_nm =
     (if distance_nm < 0.05 then (0.0, 0.2)
      else if distance_nm < 0.5 then (0.0, max 1.0 (distance_nm * 2))
      else (max 0.0 (fix_dme_distance_nm - distance_nm - 1),
            fix_dme_distance_nm + distance_nm + 1))"

text \<open>
  A point whose \<^verbatim>\<open>error_m\<close> the loop computed: the test distance, the test point,
  its distance to the DME, the error, and the search range at the time the record is
  written (in \<^verbatim>\<open>_find_radial_distance_intersection\<close> at the end of the pass,
  after the range has been updated; in the older revision when the error is computed). The
  list of these records is kept beside the program's variables; the program never reads
  it.
\<close>

record probe =
  at_dist :: real
  at_point :: Coordinates
  to_dme_m :: real
  abs_error_m :: real
  range_min :: real
  range_max :: real

record search =
  min_dist :: real
  max_dist :: real
  best_approx_distance :: "real option"
  best_approx_point :: Coordinates
  probes :: "probe list"

text \<open>How a pass of a loop body ends: \<^verbatim>\<open>break\<close>, or on to the next pass.\<close>

datatype 'a flow = Break 'a | Next 'a

definition log_probe ::
  "real \<Rightarrow> Coordinates \<Rightarrow> real \<Rightarrow> real \<Rightarrow> 'a search_scheme \<Rightarrow> 'a search_scheme"
where
  "log_probe test_dist test_point test_to_dme_m error_m s =
     s\<lparr>probes := probes s @
          [\<lparr>at_dist = test_dist, at_point = test_point, to_dme_m = test_to_dme_m,
            abs_error_m = error_m, range_min = min_dist s, range_max = max_dist s\<rparr>]\<rparr>"

text \<open>The body of \<^verbatim>\<open>for iteration in range(MAX_ITERATIONS)\<close>.\<close>

definition search_pass ::
  "geodesic \<Rightarrow> Coordinates \<Rightarrow> real \<Rightarrow> Coordinates \<Rightarrow> real \<Rightarrow> search \<Rightarrow> error + search flow"
where
  "search_pass g fix_coords true_bearing dme_coords distance_m s =
     (let test_dist = (min_dist s + max_dist s) / 2.0;
          test_point_result =
            Direct g (lat fix_coords) (lon fix_coords) true_bearing (nm_to_meters test_dist)
      in case new_Coordinates (lat2 test_point_result) (lon2 test_point_result) of
           Inl e \<Rightarrow> Inl e
         | Inr test_point \<Rightarrow>
             (let test_to_dme =
                    Inverse g (lat test_point) (lon test_point) (lat dme_coords) (lon dme_coords);
                  test_to_dme_m = s12 test_to_dme;
                  error_m = \<bar>test_to_dme_m - distance_m\<bar>;
                  s1 = (if less_inf error_m (best_approx_distance s)
                        then s\<lparr>best_approx_distance := Some error_m,
                               best_approx_point := test_point\<rparr>
                        else s)
              in if error_m < DISTANCE_TOLERANCE_M
                 then Inr (Break (log_probe test_dist test_point test_to_dme_m error_m s1))
                 else
                   (let s2 = (if test_to_dme_m > distance_m then s1\<lparr>max_dist := test_dist\<rparr>
                              else s1\<lparr>min_dist := test_dist\<rparr>)
                    in if max_dist s2 - min_dist s2 < 0.000001
                       then Inr (Break (log_probe test_dist test_point test_to_dme_m error_m s2))
                       else Inr (Next (log_probe test_dist test_point test_to_dme_m error_m s2)))))"

text \<open>The \<^verbatim>\<open>for\<close> loop: at most \<open>n\<close> passes.\<close>

fun search_loop ::
  "nat \<Rightarrow> geodesic \<Rightarrow> Coordinates \<Rightarrow> real \<Rightarrow> Coordinates \<Rightarrow> real \<Rightarrow> search \<Rightarrow> error + search"
where
  "search_loop 0 g fix_coords true_bearing dme_coords distance_m s = Inr s"
| "search_loop (Suc n) g fix_coords true_bearing dme_coords distance_m s =
     (case search_pass g fix_coords true_bearing dme_coords distance_m s of
        Inl e \<Rightarrow> Inl e
      | Inr (Break s') \<Rightarrow> Inr s'
      | Inr (Next s') \<Rightarrow> search_loop n g fix_coords true_bearing dme_coords distance_m s')"

text \<open>
  The function up to its \<^verbatim>\<open>return\<close>: the variables when the loop has ended. The
  initial best point is a copy of the FIX, or \<open>(0, 0)\<close> when that copy raises.
\<close>

definition intersection_search ::
  "geodesic \<Rightarrow> Coordinates \<Rightarrow> real \<Rightarrow> Coordinates \<Rightarrow> real \<Rightarrow> error + search"
where
  "intersection_search g fix_coords true_bearing dme_coords distance_nm =
     (let distance_m = nm_to_meters distance_nm;
          fix_dme_result =
            Inverse g (lat fix_coords) (lon fix_coords) (lat dme_coords) (lon dme_coords);
          fix_dme_distance_nm = meters_to_nm (s12 fix_dme_result);
          (min_dist0, max_dist0) = search_range fix_dme_distance_nm distance_nm;
          best0 = (case new_Coordinates (lat fix_coords) (lon fix_coords) of
                     Inr c \<Rightarrow> c
                   | Inl _ \<Rightarrow> \<lparr>lat = 0, lon = 0\<rparr>)
      in search_loop MAX_ITERATIONS g fix_coords true_bearing dme_coords distance_m
           \<lparr>min_dist = min_dist0, max_dist = max_dist0, best_approx_distance = None,
            best_approx_point = best0, probes = []\<rparr>)"

definition find_radial_distance_intersection ::
  "geodesic \<Rightarrow> Coordinates \<Rightarrow> real \<Rightarrow> Coordinates \<Rightarrow> real \<Rightarrow> error + Coordinates"
where
  "find_radial_distance_intersection g fix_coords true_bearing dme_coords distance_nm =
     map_sum id best_approx_point
       (intersection_search g fix_coords true_bearing dme_coords distance_nm)"

section \<open>The revision with a stagnation correction (\<^verbatim>\<open>unnamed/part_000\<close>)\<close>

text \<open>
  \<^verbatim>\<open>find_radial_distance_intersection\<close> at lines 3603 to 3766 of
  \<^verbatim>\<open>unnamed/part_000\<close>. Points are dictionaries with the keys \<^verbatim>\<open>lat\<close> and
  \<^verbatim>\<open>lon\<close> (no range check); the loop has three more variables. What each pass did is
  logged beside them: the error at the midpoint, the outcome of the test
  \<^verbatim>\<open>abs(prev_error - error_m) < DISTANCE_TOLERANCE_M / 10\<close>, and whether the block under
  \<^verbatim>\<open>if stagnation_counter > 5\<close> ran.
\<close>

record pass =
  mid_error :: real
  small_change :: bool
  fired :: bool

record stag_search = search +
  prev_error :: "real option"
  stagnation_counter :: nat
  intersection_found :: bool
  passes :: "pass list"

text \<open>
  \<^verbatim>\<open>GEODESIC.Direct(lat_fix, lon_fix, true_bearing, nm_to_meters(test_dist))\<close> followed by
  \<^verbatim>\<open>GEODESIC.Inverse(lat2, lon2, lat_dme, lon_dme)['s12']\<close>: the point at a distance
  along the radial, and its distance to the DME in metres.
\<close>

definition point_at :: "geodesic \<Rightarrow> real \<Rightarrow> real \<Rightarrow> real \<Rightarrow> real \<Rightarrow> Coordinates" where
  "point_at g lat_fix lon_fix true_bearing test_dist =
     (let test_point = Direct g lat_fix lon_fix true_bearing (nm_to_meters test_dist)
      in \<lparr>lat = lat2 test_point, lon = lon2 test_point\<rparr>)"

definition to_dme :: "geodesic \<Rightarrow> Coordinates \<Rightarrow> real \<Rightarrow> real \<Rightarrow> real" where
  "to_dme g p lat_dme lon_dme = s12 (Inverse g (lat p) (lon p) lat_dme lon_dme)"

text \<open>\<^verbatim>\<open>if error_m < best_approx_distance:\<close> with its two assignments.\<close>

definition keep_best :: "real \<Rightarrow> Coordinates \<Rightarrow> 'a search_scheme \<Rightarrow> 'a search_scheme" where
  "keep_best error_m p s =
     (if less_inf error_m (best_approx_distance s)
      then s\<lparr>best_approx_distance := Some error_m, best_approx_point := p\<rparr>
      else s)"

text \<open>\<^verbatim>\<open>abs(prev_error - error_m) < DISTANCE_TOLERANCE_M / 10\<close>; false while
  \<^verbatim>\<open>prev_error\<close> is infinite.\<close>

fun little_progress :: "real option \<Rightarrow> real \<Rightarrow> bool" where
  "little_progress None error_m = False"
| "little_progress (Some prev) error_m = (\<bar>prev - error_m\<bar> < DISTANCE_TOLERANCE_M / 10)"

text \<open>
  The distance the correction goes on with: the root of the line through the signed errors
  at the two ends of the range, or the midpoint \<^verbatim>\<open>test_dist\<close> when the two errors are
  equal.
\<close>

definition corrected_dist ::
  "geodesic \<Rightarrow> real \<Rightarrow> real \<Rightarrow> real \<Rightarrow> real \<Rightarrow> real \<Rightarrow> real \<Rightarrow> real \<Rightarrow> 'a search_scheme \<Rightarrow> real"
where
  "corrected_dist g lat_fix lon_fix true_bearing lat_dme lon_dme distance_m test_dist s =
     (let test_dist_1 = min_dist s;
          error_1 =
            to_dme g (point_at g lat_fix lon_fix true_bearing test_dist_1) lat_dme lon_dme
              - distance_m;
          test_dist_2 = max_dist s;
          error_2 =
            to_dme g (point_at g lat_fix lon_fix true_bearing test_dist_2) lat_dme lon_dme
              - distance_m
      in if error_1 \<noteq> error_2
         then test_dist_1 + (test_dist_2 - test_dist_1) * (0 - error_1) / (error_2 - error_1)
         else test_dist)"

text \<open>
  The end of the block: the counter is reset and the range adjusted. In the \<^verbatim>\<open>else\<close>
  branch the second assignment reads the \<^verbatim>\<open>min_dist\<close> that the first one has just
  written.
\<close>

definition adjust_bounds :: "real \<Rightarrow> real \<Rightarrow> real \<Rightarrow> stag_search \<Rightarrow> stag_search" where
  "adjust_bounds test_dist test_to_dme_m distance_m s =
     (let s0 = s\<lparr>stagnation_counter := 0\<rparr>
      in if min_dist s < test_dist \<and> test_dist < max_dist s then
           (if test_to_dme_m > distance_m then s0\<lparr>max_dist := test_dist\<rparr>
            else s0\<lparr>min_dist := test_dist\<rparr>)
         else
           (let new_min = (min_dist s + max_dist s) / 3;
                new_max = 2 * (new_min + max_dist s) / 3
            in s0\<lparr>min_dist := new_min, max_dist := new_max\<rparr>))"

text \<open>
  The block under \<^verbatim>\<open>if stagnation_counter > 5\<close>, up to its \<^verbatim>\<open>continue\<close>;
  \<^verbatim>\<open>test_to_dme_m\<close> is still the midpoint's distance when the range is adjusted.
\<close>

definition stagnation_correction ::
  "geodesic \<Rightarrow> real \<Rightarrow> real \<Rightarrow> real \<Rightarrow> real \<Rightarrow> real \<Rightarrow> real \<Rightarrow> real \<Rightarrow> real
     \<Rightarrow> stag_search \<Rightarrow> stag_search flow"
where
  "stagnation_correction g lat_fix lon_fix true_bearing lat_dme lon_dme distance_m
       test_dist test_to_dme_m s =
     (let test_dist_1 = min_dist s;
          error_1 =
            to_dme g (point_at g lat_fix lon_fix true_bearing test_dist_1) lat_dme lon_dme
              - distance_m;
          test_dist_2 = max_dist s;
          error_2 =
            to_dme g (point_at g lat_fix lon_fix true_bearing test_dist_2) lat_dme lon_dme
              - distance_m
      in if error_1 \<noteq> error_2 then
           (let test_dist =
                  corrected_dist g lat_fix lon_fix true_bearing lat_dme lon_dme distance_m
                    test_dist s;
                test_point = point_at g lat_fix lon_fix true_bearing test_dist;
                test_to_dme = to_dme g test_point lat_dme lon_dme;
                error_m = \<bar>test_to_dme - distance_m\<bar>;
                s1 = log_probe test_dist test_point test_to_dme error_m
                       (keep_best error_m test_point s)
            in if error_m < DISTANCE_TOLERANCE_M then Break (s1\<lparr>intersection_found := True\<rparr>)
               else Next (adjust_bounds test_dist test_to_dme_m distance_m s1))
         else Next (adjust_bounds test_dist test_to_dme_m distance_m s))"

text \<open>The body of the \<^verbatim>\<open>for\<close> loop.\<close>

definition stag_pass ::
  "geodesic \<Rightarrow> real \<Rightarrow> real \<Rightarrow> real \<Rightarrow> real \<Rightarrow> real \<Rightarrow> real \<Rightarrow> stag_search \<Rightarrow> stag_search flow"
where
  "stag_pass g lat_fix lon_fix true_bearing lat_dme lon_dme distance_m s =
     (let test_dist = (min_dist s + max_dist s) / 2.0;
          test_point = point_at g lat_fix lon_fix true_bearing test_dist;
          test_to_dme_m = to_dme g test_point lat_dme lon_dme;
          error_m = \<bar>test_to_dme_m - distance_m\<bar>;
          small = little_progress (prev_error s) error_m;
          s1 = log_probe test_dist test_point test_to_dme_m error_m
                 (keep_best error_m test_point s)
      in if error_m < DISTANCE_TOLERANCE_M then
           Break (s1\<lparr>intersection_found := True,
                     passes := passes s1 @
                       [\<lparr>mid_error = error_m, small_change = small, fired = False\<rparr>]\<rparr>)
         else
           (let s2 = (if small then s1\<lparr>stagnation_counter := stagnation_counter s1 + 1\<rparr>
                      else s1\<lparr>stagnation_counter := 0\<rparr>)
            in if stagnation_counter s2 > 5 then
                 stagnation_correction g lat_fix lon_fix true_bearing lat_dme lon_dme distance_m
                   test_dist test_to_dme_m
                   (s2\<lparr>passes := passes s2 @
                         [\<lparr>mid_error = error_m, small_change = small, fired = True\<rparr>]\<rparr>)
               else
                 (let s3 = s2\<lparr>prev_error := Some error_m,
                               passes := passes s2 @
                                 [\<lparr>mid_error = error_m, small_change = small, fired = False\<rparr>]\<rparr>;
                      s4 = (if test_to_dme_m > distance_m then s3\<lparr>max_dist := test_dist\<rparr>
                            else s3\<lparr>min_dist := test_dist\<rparr>)
                  in if max_dist s4 - min_dist s4 < 0.000001 then Break s4 else Next s4)))"

fun stag_loop ::
  "nat \<Rightarrow> geodesic \<Rightarrow> real \<Rightarrow> real \<Rightarrow> real \<Rightarrow> real \<Rightarrow> real \<Rightarrow> real \<Rightarrow> stag_search \<Rightarrow> stag_search"
where
  "stag_loop 0 g lat_fix lon_fix true_bearing lat_dme lon_dme distance_m s = s"
| "stag_loop (Suc n) g lat_fix lon_fix true_bearing lat_dme lon_dme distance_m s =
     (case stag_pass g lat_fix lon_fix true_bearing lat_dme lon_dme distance_m s of
        Break s' \<Rightarrow> s'
      | Next s' \<Rightarrow> stag_loop n g lat_fix lon_fix true_bearing lat_dme lon_dme distance_m s')"

text \<open>The variables when the loop has ended.\<close>

definition stag_intersection_search ::
  "geodesic \<Rightarrow> real \<Rightarrow> real \<Rightarrow> real \<Rightarrow> real \<Rightarrow> real \<Rightarrow> real \<Rightarrow> stag_search"
where
  "stag_intersection_search g lat_fix lon_fix true_bearing lat_dme lon_dme distance_nm =
     (let distance_m = nm_to_meters distance_nm;
          fix_dme_result = Inverse g lat_fix lon_fix lat_dme lon_dme;
          fix_dme_distance_m = s12 fix_dme_result;
          fix_dme_distance_nm = meters_to_nm fix_dme_distance_m;
          (min_dist0, max_dist0) = search_range_unchecked fix_dme_distance_nm distance_nm
      in stag_loop MAX_ITERATIONS g lat_fix lon_fix true_bearing lat_dme lon_dme distance_m
           \<lparr>min_dist = min_dist0, max_dist = max_dist0, best_approx_distance = None,
            best_approx_point = \<lparr>lat = 0, lon = 0\<rparr>, probes = [],
            prev_error = None, stagnation_counter = 0, intersection_found = False,
            passes = []\<rparr>)"

text \<open>
  The function returns \<^verbatim>\<open>best_approx_point\<close>: the verification after the loop assigns
  it to \<^verbatim>\<open>result_point\<close> a second time at most, and the final check only prints.
\<close>

definition stag_find_radial_distance_intersection ::
  "geodesic \<Rightarrow> real \<Rightarrow> real \<Rightarrow> real \<Rightarrow> real \<Rightarrow> real \<Rightarrow> real \<Rightarrow> Coordinates"
where
  "stag_find_radial_distance_intersection g lat_fix lon_fix true_bearing lat_dme lon_dme
       distance_nm =
     best_approx_point
       (stag_intersection_search g lat_fix lon_fix true_bearing lat_dme lon_dme distance_nm)"

section \<open>A stand-in for the oracle\<close>

text \<open>
  A flat strip along a parallel: \<^verbatim>\<open>Direct\<close> moves east by the distance, one degree per
  111120 m (60 nautical miles), and stays inside \<open>[-179, 179]\<close>; \<^verbatim>\<open>Inverse\<close> measures
  the distance in the same unit, scaled by \<open>k\<close> (\<open>k = 1\<close>: it agrees with
  \<^verbatim>\<open>Direct\<close>). It only serves to run the functions above on concrete inputs.
\<close>

definition strip :: "real \<Rightarrow> geodesic" where
  "strip k =
     \<lparr>Direct = (\<lambda>la lo az s. \<lparr>lat2 = la, lon2 = min 179 (max (-179) (lo + s / 111120))\<rparr>),
      Inverse = (\<lambda>la1 lo1 la2 lo2.
                   \<lparr>s12 = k * 111120 * (\<bar>la2 - la1\<bar> + \<bar>lo2 - lo1\<bar>), azi1 = 90\<rparr>)\<rparr>"

text \<open>
  Rounding to the nearest multiple of \<open>2^-44\<close>, the distance between two neighbouring
  double-precision floats from 256 up to 512: the float nearest to a sum in that range. It
  serves to run \<open>py_mod\<close> on concrete inputs.
\<close>

definition round_to_grid :: "real \<Rightarrow> real" where
  "round_to_grid y = of_int \<lfloor>y * 2 ^ 44 + 1 / 2\<rfloor> / 2 ^ 44"

section \<open>Notions used in the statements\<close>

text \<open>
  A logged probe records what the oracle gave: its point is the one \<^verbatim>\<open>Direct\<close>
  returns at its distance along the radial, its distance to the DME is the one
  \<^verbatim>\<open>Inverse\<close> returns from that point, and its error is the absolute difference
  between that distance and the target.
\<close>

definition measured ::
  "geodesic \<Rightarrow> real \<Rightarrow> real \<Rightarrow> real \<Rightarrow> real \<Rightarrow> real \<Rightarrow> real \<Rightarrow> probe \<Rightarrow> bool"
where
  "measured g lat_fix lon_fix true_bearing lat_dme lon_dme distance_m q =
     (at_point q = point_at g lat_fix lon_fix true_bearing (at_dist q)
      \<and> to_dme_m q = to_dme g (at_point q) lat_dme lon_dme
      \<and> abs_error_m q = \<bar>to_dme_m q - distance_m\<bar>)"

text \<open>The width of the search range that a probe records.\<close>

definition width :: "probe \<Rightarrow> real" where
  "width q = range_max q - range_min q"

text \<open>The best point is a logged probe of least error (nothing is tracked before the first).\<close>

definition tracked :: "'a search_scheme \<Rightarrow> bool" where
  "tracked s =
     (if probes s = [] then best_approx_distance s = None
      else \<exists>p \<in> set (probes s).
             best_approx_distance s = Some (abs_error_m p) \<and> best_approx_point s = at_point p
             \<and> (\<forall>q \<in> set (probes s). abs_error_m p \<le> abs_error_m q))"

fun landed :: "'a flow \<Rightarrow> 'a" where
  "landed (Break x) = x"
| "landed (Next x) = x"

fun is_Break :: "'a flow \<Rightarrow> bool" where
  "is_Break (Break x) = True"
| "is_Break (Next x) = False"




section \<open>Radius letter: the buckets and the fallback\<close>

lemma bucket_letter:
  assumes "(low, high, letter) \<in> set
    [(0.1, 1.5, CHR ''A''), (1.5, 2.5, CHR ''B''), (2.5, 3.5, CHR ''C''), (3.5, 4.5, CHR ''D''),
     (4.5, 5.5, CHR ''E''), (5.5, 6.5, CHR ''F''), (6.5, 7.5, CHR ''G''), (7.5, 8.5, CHR ''H''),
     (8.5, 9.5, CHR ''I''), (9.5, 10.5, CHR ''J''), (10.5, 11.5, CHR ''K''), (11.5, 12.5, CHR ''L''),
     (12.5, 13.5, CHR ''M''), (13.5, 14.5, CHR ''N''), (14.5, 15.5, CHR ''O''), (15.5, 16.5, CHR ''P''),
     (16.5, 17.5, CHR ''Q''), (17.5, 18.5, CHR ''R''), (18.5, 19.5, CHR ''S''), (19.5, 20.5, CHR ''T''),
     (20.5, 21.5, CHR ''U''), (21.5, 22.5, CHR ''V''), (22.5, 23.5, CHR ''W''), (23.5, 24.5, CHR ''X''),
     (24.5, 25.5, CHR ''Y''), (25.5, 26.5, CHR ''Z'')]"
    "low \<le> d" "d < high"
  shows "get_radius_letter d = letter"
  using assms unfolding ranges_def get_radius_letter_def
  apply (simp only: set_simps insert_iff empty_iff prod.inject)
  apply (elim disjE conjE)
  apply simp_all
  done

lemma letter_at_boundary:
  "get_radius_letter 1.4 = CHR ''A''" "get_radius_letter 1.5 = CHR ''B''"
  by (simp_all add: get_radius_letter_def ranges_def)

lemma letter_above: "26.5 \<le> d \<Longrightarrow> get_radius_letter d = CHR ''Z''"
  by (simp add: get_radius_letter_def ranges_def)

lemma letter_below: "d < 0.1 \<Longrightarrow> get_radius_letter d = CHR ''A''"
  by (simp add: get_radius_letter_def ranges_def)

lemma closed_bucket_letter:
  assumes "(low, high, letter) \<in> set
    [(0.1, 1.4, CHR ''A''), (1.5, 2.4, CHR ''B''), (2.5, 3.4, CHR ''C''), (3.5, 4.4, CHR ''D''),
     (4.5, 5.4, CHR ''E''), (5.5, 6.4, CHR ''F''), (6.5, 7.4, CHR ''G''), (7.5, 8.4, CHR ''H''),
     (8.5, 9.4, CHR ''I''), (9.5, 10.4, CHR ''J''), (10.5, 11.4, CHR ''K''), (11.5, 12.4, CHR ''L''),
     (12.5, 13.4, CHR ''M''), (13.5, 14.4, CHR ''N''), (14.5, 15.4, CHR ''O''), (15.5, 16.4, CHR ''P''),
     (16.5, 17.4, CHR ''Q''), (17.5, 18.4, CHR ''R''), (18.5, 19.4, CHR ''S''), (19.5, 20.4, CHR ''T''),
     (20.5, 21.4, CHR ''U''), (21.5, 22.4, CHR ''V''), (22.5, 23.4, CHR ''W''), (23.5, 24.4, CHR ''X''),
     (24.5, 25.4, CHR ''Y''), (25.5, 26.4, CHR ''Z'')]"
    "low \<le> d" "d \<le> high"
  shows "get_radius_letter_closed d = letter"
  using assms unfolding ranges_closed_def get_radius_letter_closed_def
  apply (simp only: set_simps insert_iff empty_iff prod.inject)
  apply (elim disjE conjE)
  apply simp_all
  done

lemma closed_letter_at_boundary:
  "get_radius_letter_closed 1.4 = CHR ''A''" "get_radius_letter_closed 1.5 = CHR ''B''"
  by (simp_all add: get_radius_letter_closed_def ranges_closed_def)

lemma closed_letter_outside:
  assumes "\<forall>(low, high, letter) \<in> set
    [(0.1, 1.4, CHR ''A''), (1.5, 2.4, CHR ''B''), (2.5, 3.4, CHR ''C''), (3.5, 4.4, CHR ''D''),
     (4.5, 5.4, CHR ''E''), (5.5, 6.4, CHR ''F''), (6.5, 7.4, CHR ''G''), (7.5, 8.4, CHR ''H''),
     (8.5, 9.4, CHR ''I''), (9.5, 10.4, CHR ''J''), (10.5, 11.4, CHR ''K''), (11.5, 12.4, CHR ''L''),
     (12.5, 13.4, CHR ''M''), (13.5, 14.4, CHR ''N''), (14.5, 15.4, CHR ''O''), (15.5, 16.4, CHR ''P''),
     (16.5, 17.4, CHR ''Q''), (17.5, 18.4, CHR ''R''), (18.5, 19.4, CHR ''S''), (19.5, 20.4, CHR ''T''),
     (20.5, 21.4, CHR ''U''), (21.5, 22.4, CHR ''V''), (22.5, 23.4, CHR ''W''), (23.5, 24.4, CHR ''X''),
     (24.5, 25.4, CHR ''Y''), (25.5, 26.4, CHR ''Z'')].
      \<not> (low \<le> d \<and> d \<le> high)"
  shows "get_radius_letter_closed d = CHR ''Z''"
  using assms unfolding ranges_closed_def get_radius_letter_closed_def
  by simp

text \<open>
  C7, as the code has it. In \<^verbatim>\<open>vor_fix_calculation.py\<close> the buckets are half-open
  and adjoin: a distance in \<open>[0.1, 1.5)\<close> gets \<open>A\<close>, one in \<open>[1.5, 2.5)\<close> gets
  \<open>B\<close>, and so on up to \<open>[25.5, 26.5)\<close> for \<open>Z\<close>; 1.4 gives \<open>A\<close> and 1.5
  gives \<open>B\<close>; a distance of 26.5 or more gives \<open>Z\<close> and a distance below 0.1 gives
  \<open>A\<close>. In the earlier revisions the buckets are the closed intervals \<open>[0.1, 1.4]\<close>,
  \<open>[1.5, 2.4]\<close>, up to \<open>[25.5, 26.4]\<close>: a distance in one of them gets its letter, so
  1.4 gives \<open>A\<close> and 1.5 gives \<open>B\<close>, and every distance in none of them, between two
  buckets, below 0.1 or above 26.4, gives \<open>Z\<close>.
\<close>

theorem radius_letter_buckets:
  fixes d :: real and buckets buckets_closed :: "(real \<times> real \<times> char) list"
  defines "buckets \<equiv>
    [(0.1, 1.5, CHR ''A''), (1.5, 2.5, CHR ''B''), (2.5, 3.5, CHR ''C''), (3.5, 4.5, CHR ''D''),
     (4.5, 5.5, CHR ''E''), (5.5, 6.5, CHR ''F''), (6.5, 7.5, CHR ''G''), (7.5, 8.5, CHR ''H''),
     (8.5, 9.5, CHR ''I''), (9.5, 10.5, CHR ''J''), (10.5, 11.5, CHR ''K''), (11.5, 12.5, CHR ''L''),
     (12.5, 13.5, CHR ''M''), (13.5, 14.5, CHR ''N''), (14.5, 15.5, CHR ''O''), (15.5, 16.5, CHR ''P''),
     (16.5, 17.5, CHR ''Q''), (17.5, 18.5, CHR ''R''), (18.5, 19.5, CHR ''S''), (19.5, 20.5, CHR ''T''),
     (20.5, 21.5, CHR ''U''), (21.5, 22.5, CHR ''V''), (22.5, 23.5, CHR ''W''), (23.5, 24.5, CHR ''X''),
     (24.5, 25.5, CHR ''Y''), (25.5, 26.5, CHR ''Z'')]"
    and "buckets_closed \<equiv>
    [(0.1, 1.4, CHR ''A''), (1.5, 2.4, CHR ''B''), (2.5, 3.4, CHR ''C''), (3.5, 4.4, CHR ''D''),
     (4.5, 5.4, CHR ''E''), (5.5, 6.4, CHR ''F''), (6.5, 7.4, CHR ''G''), (7.5, 8.4, CHR ''H''),
     (8.5, 9.4, CHR ''I''), (9.5, 10.4, CHR ''J''), (10.5, 11.4, CHR ''K''), (11.5, 12.4, CHR ''L''),
     (12.5, 13.4, CHR ''M''), (13.5, 14.4, CHR ''N''), (14.5, 15.4, CHR ''O''), (15.5, 16.4, CHR ''P''),
     (16.5, 17.4, CHR ''Q''), (17.5, 18.4, CHR ''R''), (18.5, 19.4, CHR ''S''), (19.5, 20.4, CHR ''T''),
     (20.5, 21.4, CHR ''U''), (21.5, 22.4, CHR ''V''), (22.5, 23.4, CHR ''W''), (23.5, 24.4, CHR ''X''),
     (24.5, 25.4, CHR ''Y''), (25.5, 26.4, CHR ''Z'')]"
  shows "(\<forall>(low, high, letter) \<in> set buckets.
      low \<le> d \<and> d < high \<longrightarrow> get_radius_letter d = letter)
   \<and> get_radius_letter 1.4 = CHR ''A'' \<and> get_radius_letter 1.5 = CHR ''B''
   \<and> (26.5 \<le> d \<longrightarrow> get_radius_letter d = CHR ''Z'')
   \<and> (d < 0.1 \<longrightarrow> get_radius_letter d = CHR ''A'')
   \<and> (\<forall>(low, high, letter) \<in> set buckets_closed.
        low \<le> d \<and> d \<le> high \<longrightarrow> get_radius_letter_closed d = letter)
   \<and> get_radius_letter_closed 1.4 = CHR ''A'' \<and> get_radius_letter_closed 1.5 = CHR ''B''
   \<and> ((\<forall>(low, high, letter) \<in> set buckets_closed. \<not> (low \<le> d \<and> d \<le> high)) \<longrightarrow>
        get_radius_letter_closed d = CHR ''Z'')"
proof -
  have a: "\<forall>x \<in> set buckets. case x of (low, high, letter) \<Rightarrow>
      low \<le> d \<and> d < high \<longrightarrow> get_radius_letter d = letter"
  proof
    fix x assume x: "x \<in> set buckets"
    obtain low high letter where "x = (low, high, letter)" by (cases x)
    with x show "case x of (low, high, letter) \<Rightarrow>
      low \<le> d \<and> d < high \<longrightarrow> get_radius_letter d = letter"
      using bucket_letter[of low high letter d] unfolding buckets_def by simp
  qed
  have b: "\<forall>x \<in> set buckets_closed. case x of (low, high, letter) \<Rightarrow>
      low \<le> d \<and> d \<le> high \<longrightarrow> get_radius_letter_closed d = letter"
  proof
    fix x assume x: "x \<in> set buckets_closed"
    obtain low high letter where "x = (low, high, letter)" by (cases x)
    with x show "case x of (low, high, letter) \<Rightarrow>
      low \<le> d \<and> d \<le> high \<longrightarrow> get_radius_letter_closed d = letter"
      using closed_bucket_letter[of low high letter d] unfolding buckets_closed_def by simp
  qed
  have c: "(\<forall>(low, high, letter) \<in> set buckets_closed. \<not> (low \<le> d \<and> d \<le> high)) \<longrightarrow>
        get_radius_letter_closed d = CHR ''Z''"
    unfolding buckets_closed_def by (rule impI) (rule closed_letter_outside)
  have e: "26.5 \<le> d \<longrightarrow> get_radius_letter d = CHR ''Z''"
    "d < 0.1 \<longrightarrow> get_radius_letter d = CHR ''A''"
    by (simp_all add: letter_above letter_below)
  from a b c e letter_at_boundary closed_letter_at_boundary show ?thesis
    by (intro conjI)
qed

text \<open>
  10 nautical miles is \<open>J\<close> in every revision; 2.45 lies between the closed buckets of
  \<open>B\<close> and \<open>C\<close>.
\<close>

theorem radius_letter_buckets_witness:
  "get_radius_letter 10 = CHR ''J'' \<and> get_radius_letter_closed 10 = CHR ''J''
   \<and> get_radius_letter 26 = CHR ''Z'' \<and> get_radius_letter_closed 26 = CHR ''Z''
   \<and> get_radius_letter 30 = CHR ''Z'' \<and> get_radius_letter 0.05 = CHR ''A''
   \<and> get_radius_letter_closed 2.45 = CHR ''Z'' \<and> get_radius_letter_closed 0.05 = CHR ''Z''
   \<and> get_radius_letter_closed 30 = CHR ''Z''"
proof -
  have j: "get_radius_letter 10 = CHR ''J''" "get_radius_letter_closed 10 = CHR ''J''"
    using radius_letter_buckets[of 10] by simp_all
  have z: "get_radius_letter 26 = CHR ''Z''" "get_radius_letter_closed 26 = CHR ''Z''"
    using radius_letter_buckets[of 26] by simp_all
  have f: "get_radius_letter 30 = CHR ''Z''" "get_radius_letter_closed 30 = CHR ''Z''"
    using radius_letter_buckets[of 30] by simp_all
  have g: "get_radius_letter 0.05 = CHR ''A''" "get_radius_letter_closed 0.05 = CHR ''Z''"
    using radius_letter_buckets[of "0.05"] by simp_all
  have h: "get_radius_letter_closed 2.45 = CHR ''Z''"
    using radius_letter_buckets[of "2.45"] by simp
  from j z f g h show ?thesis by (intro conjI)
qed

text \<open>
  C7 as stated fails in the earlier revisions: 1.45 nautical miles lies between the closed
  buckets \<open>[0.1, 1.4]\<close> and \<open>[1.5, 2.4]\<close> and gets the fallback \<open>Z\<close>, where
  \<^verbatim>\<open>vor_fix_calculation.py\<close> gives \<open>A\<close>.
\<close>

theorem radius_letter_gap_counterexample:
  "get_radius_letter_closed 1.45 = CHR ''Z'' \<and> get_radius_letter 1.45 = CHR ''A''"
  by (simp add: get_radius_letter_closed_def ranges_closed_def get_radius_letter_def ranges_def)

section \<open>Coordinates: the range check\<close>

text \<open>
  C8. \<^verbatim>\<open>Coordinates(lat, lon)\<close> of \<^verbatim>\<open>vor_fix_calculation.py\<close> succeeds exactly for
  latitude in \<open>[-90, 90]\<close> and longitude in \<open>(-180, 180]\<close>, and raises otherwise;
  the one of \<^verbatim>\<open>core_vor_calc.py\<close> succeeds exactly for latitude in \<open>[-90, 90]\<close> and
  longitude in \<open>[-180, 180]\<close>. The two differ at longitude \<open>-180\<close> only, which the
  first rejects and the second accepts.
\<close>

theorem coordinates_range_check:
  "new_Coordinates la lo =
     (if -90 \<le> la \<and> la \<le> 90 \<and> -180 < lo \<and> lo \<le> 180 then Inr \<lparr>lat = la, lon = lo\<rparr>
      else if -90 \<le> la \<and> la \<le> 90 then Inl (LongitudeOutOfRange lo)
      else Inl (LatitudeOutOfRange la))
   \<and> new_Coordinates_core la lo =
     (if -90 \<le> la \<and> la \<le> 90 \<and> -180 \<le> lo \<and> lo \<le> 180 then Inr \<lparr>lat = la, lon = lo\<rparr>
      else if -90 \<le> la \<and> la \<le> 90 then Inl (LongitudeOutOfRange lo)
      else Inl (LatitudeOutOfRange la))
   \<and> new_Coordinates_core la lo =
     (if lo = -180 \<and> -90 \<le> la \<and> la \<le> 90 then Inr \<lparr>lat = la, lon = lo\<rparr>
      else new_Coordinates la lo)
   \<and> new_Coordinates 0 (-180) = Inl (LongitudeOutOfRange (-180))
   \<and> new_Coordinates_core 0 (-180) = Inr \<lparr>lat = 0, lon = -180\<rparr>"
  by (auto simp add: new_Coordinates_def new_Coordinates_core_def)

section \<open>Precision metrics of an empty batch\<close>

text \<open>
  C9. \<^verbatim>\<open>calculate_precision_metrics([])\<close> returns mean, maximum and minimum 0 for the
  distance errors and for the azimuth errors, and the count 0; the function has no
  \<^verbatim>\<open>raise\<close>, and on the empty list it returns before the oracle is called.
\<close>

theorem empty_batch_metrics:
  "calculate_precision_metrics rnd g [] =
     \<lparr>mean_distance_error_m = 0, max_distance_error_m = 0, min_distance_error_m = 0,
      mean_azimuth_error_deg = 0, max_azimuth_error_deg = 0, min_azimuth_error_deg = 0,
      total_calculations = 0\<rparr>"
  by (simp add: calculate_precision_metrics_def)

section \<open>Azimuth error of the validation\<close>

lemma floor_360_bounds:
  "0 \<le> x - 360 * of_int \<lfloor>x / 360\<rfloor> \<and> x - 360 * of_int \<lfloor>x / 360\<rfloor> < (360::real)"
  using floor_divide_lower[of 360 x] floor_divide_upper[of 360 x]
  by (simp add: algebra_simps)

lemma py_mod_cases:
  "py_mod rnd x 360 =
     (if fmod x 360 < 0 then rnd (fmod x 360 + 360) else fmod x 360)"
  by (simp add: py_mod_def Let_def)

lemma py_mod_nonneg:
  assumes "0 \<le> x"
  shows "py_mod rnd x 360 = x - 360 * of_int \<lfloor>x / 360\<rfloor>"
proof -
  have "py_int (x / 360) = \<lfloor>x / 360\<rfloor>" using assms by (simp add: py_int_def)
  then have r: "fmod x 360 = x - 360 * of_int \<lfloor>x / 360\<rfloor>" by (simp add: fmod_def)
  have "\<not> fmod x 360 < 0" unfolding r using floor_360_bounds[of x] by linarith
  then show ?thesis unfolding py_mod_cases by (simp only: if_False r)
qed

lemma py_mod_neg:
  assumes "x < 0" "rnd 0 = 0"
  shows "py_mod rnd x 360 = rnd (x - 360 * of_int \<lfloor>x / 360\<rfloor>)"
proof -
  define v where "v = x - 360 * real_of_int \<lfloor>x / 360\<rfloor>"
  have v: "0 \<le> v" "v < 360" using floor_360_bounds[of x] by (simp_all add: v_def)
  have pi: "py_int (x / 360) = \<lceil>x / 360\<rceil>" using assms by (simp add: py_int_def)
  show ?thesis
  proof (cases "x / 360 = of_int \<lfloor>x / 360\<rfloor>")
    case True
    then have "\<lceil>x / 360\<rceil> = \<lfloor>x / 360\<rfloor>" by (simp add: ceiling_altdef)
    then have "fmod x 360 = v" by (simp add: fmod_def pi v_def)
    moreover have "v = 0" using True by (simp add: v_def)
    ultimately show ?thesis
      unfolding py_mod_cases v_def[symmetric] using assms(2) by simp
  next
    case False
    then have "\<lceil>x / 360\<rceil> = \<lfloor>x / 360\<rfloor> + 1" by (simp add: ceiling_altdef)
    then have f: "fmod x 360 = v - 360" by (simp add: fmod_def pi v_def algebra_simps)
    then have "fmod x 360 < 0" using v by linarith
    then show ?thesis
      unfolding py_mod_cases v_def[symmetric] by (simp add: f)
  qed
qed

lemma py_mod_range:
  assumes "mono rnd" "rnd 0 = 0" "rnd 360 = 360"
  shows "0 \<le> py_mod rnd x 360 \<and> py_mod rnd x 360 \<le> 360"
proof (cases "0 \<le> x")
  case True
  then show ?thesis using floor_360_bounds[of x] by (simp add: py_mod_nonneg)
next
  case False
  then have x: "x < 0" by simp
  define v where "v = x - 360 * real_of_int \<lfloor>x / 360\<rfloor>"
  have v: "0 \<le> v" "v \<le> 360" using floor_360_bounds[of x] by (simp_all add: v_def)
  have "rnd 0 \<le> rnd v" "rnd v \<le> rnd 360"
    using v assms(1) by (auto dest: monoD)
  then show ?thesis
    unfolding py_mod_neg[where rnd=rnd, OF x assms(2)] v_def[symmetric] using assms by simp
qed

lemma shortest_bounds:
  "0 \<le> a \<Longrightarrow> a \<le> 360 \<Longrightarrow> 0 \<le> b \<Longrightarrow> b \<le> 360 \<Longrightarrow>
   0 \<le> min \<bar>a - b\<bar> (360 - \<bar>a - b\<bar>) \<and> min \<bar>a - b\<bar> (360 - \<bar>a - b\<bar>) \<le> (180::real)"
  by (auto simp: min_def)

lemma azimuth_error_eq:
  "azimuth_error_deg (validate_calculation_accuracy rnd g s e ea ed) =
     min \<bar>py_mod rnd (azi1 (Inverse g (lat s) (lon s) (lat e) (lon e))) 360 - py_mod rnd ea 360\<bar>
         (360 - \<bar>py_mod rnd (azi1 (Inverse g (lat s) (lon s) (lat e) (lon e))) 360
                  - py_mod rnd ea 360\<bar>)"
  by (simp add: validate_calculation_accuracy_def Let_def)

lemma actual_azimuth_eq:
  "actual_azimuth_deg (validate_calculation_accuracy rnd g s e ea ed) =
     py_mod rnd (azi1 (Inverse g (lat s) (lon s) (lat e) (lon e))) 360"
  by (simp add: validate_calculation_accuracy_def Let_def)

lemma round_to_grid_mono: "mono round_to_grid"
proof (rule monoI)
  fix x y :: real
  assume "x \<le> y"
  then have "x * 2 ^ 44 + 1 / 2 \<le> y * 2 ^ 44 + 1 / 2" by simp
  then have "\<lfloor>x * 2 ^ 44 + 1 / 2\<rfloor> \<le> \<lfloor>y * 2 ^ 44 + 1 / 2\<rfloor>" by (rule floor_mono)
  then have "real_of_int \<lfloor>x * 2 ^ 44 + 1 / 2\<rfloor> \<le> real_of_int \<lfloor>y * 2 ^ 44 + 1 / 2\<rfloor>"
    by simp
  then show "round_to_grid x \<le> round_to_grid y"
    unfolding round_to_grid_def by (rule divide_right_mono) simp
qed

lemma round_to_grid_int: "round_to_grid (real_of_int k) = real_of_int k"
proof -
  have "\<lfloor>real_of_int k * 2 ^ 44 + 1 / 2\<rfloor> = k * 2 ^ 44"
    by (rule floor_unique) simp_all
  then show ?thesis unfolding round_to_grid_def by simp
qed

lemma round_to_grid_fix:
  "round_to_grid 0 = 0" "round_to_grid 360 = 360" "round_to_grid 270 = 270"
  using round_to_grid_int[of 0] round_to_grid_int[of 360] round_to_grid_int[of 270]
  by simp_all

lemma tiny_floor: "\<lfloor>- (1 / 2 ^ 54) / (360::real)\<rfloor> = -1"
  by (rule floor_unique) simp_all

lemma tiny_round: "round_to_grid (360 - 1 / 2 ^ 54) = 360"
proof -
  have "\<lfloor>(360 - 1 / 2 ^ 54) * 2 ^ 44 + 1 / (2::real)\<rfloor> = 360 * 2 ^ 44"
    by (rule floor_unique) simp_all
  then show ?thesis unfolding round_to_grid_def by simp
qed

lemma tiny_azimuth: "py_mod round_to_grid (- (1 / 2 ^ 54)) 360 = 360"
proof -
  have "py_mod round_to_grid (- (1 / 2 ^ 54)) 360
      = round_to_grid (- (1 / 2 ^ 54) - 360 * real_of_int \<lfloor>- (1 / 2 ^ 54) / (360::real)\<rfloor>)"
    by (rule py_mod_neg) (simp_all add: round_to_grid_fix)
  also have "\<dots> = round_to_grid (360 - 1 / 2 ^ 54)" unfolding tiny_floor by simp
  finally show ?thesis by (simp only: tiny_round)
qed

text \<open>
  C6, as the code has it. Whatever the rounding of the float addition is, as long as it is
  monotone and leaves the floats 0 and 360 unchanged, \<^verbatim>\<open>validate_calculation_accuracy\<close>
  reduces the actual and the expected azimuth modulo 360 into the closed interval
  \<open>[0, 360]\<close>: an azimuth \<open>x\<close> that is not negative becomes
  \<open>x - 360 * floor(x / 360)\<close>, which is below 360, and a negative one becomes that number
  rounded, which may be 360 itself. The reported error is \<open>min(|\<Delta>|, 360 - |\<Delta>|)\<close> of
  the two reduced values and lies between 0 and 180. When the oracle's azimuth is 0.1 and
  the expected one is 359.9, the reported error is 0.2.
\<close>

theorem azimuth_error_shortest:
  assumes "mono rnd" "rnd 0 = 0" "rnd 360 = 360"
  shows "actual_azimuth_deg (validate_calculation_accuracy rnd g s e ea ed) =
       py_mod rnd (azi1 (Inverse g (lat s) (lon s) (lat e) (lon e))) 360
   \<and> azimuth_error_deg (validate_calculation_accuracy rnd g s e ea ed) =
       min \<bar>py_mod rnd (azi1 (Inverse g (lat s) (lon s) (lat e) (lon e))) 360
              - py_mod rnd ea 360\<bar>
           (360 - \<bar>py_mod rnd (azi1 (Inverse g (lat s) (lon s) (lat e) (lon e))) 360
                    - py_mod rnd ea 360\<bar>)
   \<and> py_mod rnd x 360 =
       (if x < 0 then rnd (x - 360 * of_int \<lfloor>x / 360\<rfloor>) else x - 360 * of_int \<lfloor>x / 360\<rfloor>)
   \<and> 0 \<le> x - 360 * of_int \<lfloor>x / 360\<rfloor> \<and> x - 360 * of_int \<lfloor>x / 360\<rfloor> < 360
   \<and> 0 \<le> py_mod rnd x 360 \<and> py_mod rnd x 360 \<le> 360
   \<and> 0 \<le> azimuth_error_deg (validate_calculation_accuracy rnd g s e ea ed)
   \<and> azimuth_error_deg (validate_calculation_accuracy rnd g s e ea ed) \<le> 180
   \<and> azimuth_error_deg
        (validate_calculation_accuracy rnd
           (g\<lparr>Inverse := \<lambda>la1 lo1 la2 lo2. \<lparr>s12 = d, azi1 = 0.1\<rparr>\<rparr>) s e 359.9 ed) = 0.2"
proof -
  have red: "py_mod rnd x 360 =
       (if x < 0 then rnd (x - 360 * of_int \<lfloor>x / 360\<rfloor>) else x - 360 * of_int \<lfloor>x / 360\<rfloor>)"
    using py_mod_nonneg[of x rnd] py_mod_neg[of x rnd] assms(2) by simp
  have a: "py_mod rnd 0.1 360 = 0.1" "py_mod rnd 359.9 360 = 359.9"
    using py_mod_nonneg[of "0.1" rnd] py_mod_nonneg[of "359.9" rnd] by simp_all
  have ex: "azimuth_error_deg
        (validate_calculation_accuracy rnd
           (g\<lparr>Inverse := \<lambda>la1 lo1 la2 lo2. \<lparr>s12 = d, azi1 = 0.1\<rparr>\<rparr>) s e 359.9 ed) = 0.2"
    unfolding azimuth_error_eq using a by simp
  have bounds: "0 \<le> azimuth_error_deg (validate_calculation_accuracy rnd g s e ea ed)
      \<and> azimuth_error_deg (validate_calculation_accuracy rnd g s e ea ed) \<le> 180"
    unfolding azimuth_error_eq
    using py_mod_range[OF assms, of ea]
      py_mod_range[OF assms, of "azi1 (Inverse g (lat s) (lon s) (lat e) (lon e))"]
    by (intro shortest_bounds) simp_all
  from actual_azimuth_eq[of rnd g s e ea ed] azimuth_error_eq[of rnd g s e ea ed] red
    floor_360_bounds[of x] py_mod_range[OF assms, of x] bounds ex
  show ?thesis by (intro conjI) simp_all
qed

text \<open>
  With the rounding to the nearest multiple of \<open>2^-44\<close>: an oracle azimuth of -90
  against an expected azimuth of 450 is reduced to 270 against 90, and the error is 180.
\<close>

theorem azimuth_error_shortest_witness:
  "mono round_to_grid \<and> round_to_grid 0 = 0 \<and> round_to_grid 360 = 360
   \<and> actual_azimuth_deg
        (validate_calculation_accuracy round_to_grid
           ((strip 1)\<lparr>Inverse := \<lambda>la1 lo1 la2 lo2. \<lparr>s12 = 0, azi1 = - 90\<rparr>\<rparr>)
           \<lparr>lat = 0, lon = 0\<rparr> \<lparr>lat = 0, lon = 0\<rparr> 450 0) = 270
   \<and> py_mod round_to_grid 450 360 = 90
   \<and> azimuth_error_deg
        (validate_calculation_accuracy round_to_grid
           ((strip 1)\<lparr>Inverse := \<lambda>la1 lo1 la2 lo2. \<lparr>s12 = 0, azi1 = - 90\<rparr>\<rparr>)
           \<lparr>lat = 0, lon = 0\<rparr> \<lparr>lat = 0, lon = 0\<rparr> 450 0) = 180"
proof -
  define g where "g = (strip 1)\<lparr>Inverse := \<lambda>la1 lo1 la2 lo2. \<lparr>s12 = 0, azi1 = - 90\<rparr>\<rparr>"
  define p where "p = \<lparr>lat = 0::real, lon = 0::real\<rparr>"
  have az: "azi1 (Inverse g (lat p) (lon p) (lat p) (lon p)) = - 90" by (simp add: g_def)
  note r = round_to_grid_mono round_to_grid_fix(1,2)
  note t = azimuth_error_shortest[OF r, of g p p 450 0, unfolded az]
  have fl: "\<lfloor>- 90 / (360::real)\<rfloor> = -1" "\<lfloor>450 / (360::real)\<rfloor> = 1" by simp_all
  have m: "py_mod round_to_grid (- 90) 360 = 270"
    using azimuth_error_shortest[OF r, of g p p 450 0 "- 90"] fl(1)
    by (simp add: round_to_grid_fix)
  have e: "py_mod round_to_grid 450 360 = 90"
    using azimuth_error_shortest[OF r, of g p p 450 0 450] fl(2) by simp
  have a: "actual_azimuth_deg (validate_calculation_accuracy round_to_grid g p p 450 0) = 270"
    using t m by simp
  have d: "azimuth_error_deg (validate_calculation_accuracy round_to_grid g p p 450 0) = 180"
    using t m e by simp
  from r a e d show ?thesis unfolding g_def p_def by (intro conjI)
qed

text \<open>
  C6 as stated fails at the upper end of the interval. When the oracle's azimuth is
  \<open>-2^-54\<close> degrees (about \<open>-5.6e-17\<close>, a rounding residue just west of north), the
  remainder is that number itself, its sum with 360 lies closer to 360 than to the float
  below, and the reduced azimuth is 360, not a number of \<open>[0, 360)\<close>.
\<close>

theorem azimuth_below_360_counterexample:
  "actual_azimuth_deg
     (validate_calculation_accuracy round_to_grid
        ((strip 1)\<lparr>Inverse := \<lambda>la1 lo1 la2 lo2. \<lparr>s12 = 0, azi1 = - (1 / 2 ^ 54)\<rparr>\<rparr>)
        \<lparr>lat = 0, lon = 0\<rparr> \<lparr>lat = 0, lon = 0\<rparr> 0 0) = 360
   \<and> fmod (- (1 / 2 ^ 54)) 360 = - (1 / 2 ^ 54)
   \<and> round_to_grid (- (1 / 2 ^ 54) + 360) = 360"
proof -
  have "actual_azimuth_deg
     (validate_calculation_accuracy round_to_grid
        ((strip 1)\<lparr>Inverse := \<lambda>la1 lo1 la2 lo2. \<lparr>s12 = 0, azi1 = - (1 / 2 ^ 54)\<rparr>\<rparr>)
        \<lparr>lat = 0, lon = 0\<rparr> \<lparr>lat = 0, lon = 0\<rparr> 0 0)
      = py_mod round_to_grid (- (1 / 2 ^ 54)) 360"
    unfolding actual_azimuth_eq by simp
  then have a: "actual_azimuth_deg
     (validate_calculation_accuracy round_to_grid
        ((strip 1)\<lparr>Inverse := \<lambda>la1 lo1 la2 lo2. \<lparr>s12 = 0, azi1 = - (1 / 2 ^ 54)\<rparr>\<rparr>)
        \<lparr>lat = 0, lon = 0\<rparr> \<lparr>lat = 0, lon = 0\<rparr> 0 0) = 360"
    by (simp only: tiny_azimuth)
  have "\<lceil>- (1 / 2 ^ 54) / (360::real)\<rceil> = 0"
    by (rule ceiling_unique) simp_all
  then have b: "fmod (- (1 / 2 ^ 54)) 360 = - (1 / 2 ^ 54)"
    by (simp add: fmod_def py_int_def)
  have c: "round_to_grid (- (1 / 2 ^ 54) + 360) = 360"
    using tiny_round by (simp add: add.commute)
  from a b c show ?thesis by (intro conjI)
qed

section \<open>Forward projection: one step or several\<close>

lemma num_steps_small: "d < 1000 \<Longrightarrow> max 1 (py_int (d / 500)) = 1"
proof -
  assume "d < 1000"
  then have "d / 500 < 2" by simp
  then have "py_int (d / 500) \<le> 1"
    unfolding py_int_def by (auto simp: floor_le_iff ceiling_le_iff)
  then show ?thesis by simp
qed

lemma num_steps_large:
  "1000 \<le> d \<Longrightarrow> max 1 (py_int (d / 500)) = \<lfloor>d / 500\<rfloor> \<and> 2 \<le> \<lfloor>d / 500\<rfloor>"
proof -
  assume d: "1000 \<le> d"
  then have "2 \<le> d / 500" by simp
  then have "2 \<le> \<lfloor>d / 500\<rfloor>" by (simp add: le_floor_iff)
  moreover have "py_int (d / 500) = \<lfloor>d / 500\<rfloor>" using d by (simp add: py_int_def)
  ultimately show ?thesis by simp
qed

lemma multi_step_calls_nonempty: "snd (multi_step g az sd (Suc n) c) \<noteq> []"
  by (simp add: Let_def split_beta split: sum.splits)

lemma multi_step_length:
  "fst (multi_step g az sd n c) = Inr c' \<Longrightarrow> length (snd (multi_step g az sd n c)) = n"
  by (induction n arbitrary: c) (auto simp: Let_def split_beta split: sum.splits)

lemma multi_step_calls:
  "call \<in> set (snd (multi_step g az sd n c)) \<Longrightarrow> \<exists>la lo. call = DirectCall la lo az sd"
  by (induction n arbitrary: c) (auto simp: Let_def split_beta split: sum.splits)

lemma multi_step_chain:
  "new_Coordinates (lat2 (Direct g (lat c) (lon c) az sd)) (lon2 (Direct g (lat c) (lon c) az sd))
     = Inr c1 \<Longrightarrow>
   multi_step g az sd (Suc n) c =
     (fst (multi_step g az sd n c1),
      DirectCall (lat c) (lon c) az sd # snd (multi_step g az sd n c1))"
  by (simp add: Let_def split_beta)

lemma project_eq:
  "calculate_target_coords_geodesic g start_coords azimuth distance_nm =
     (let distance_m = distance_nm * 1852;
          result = Direct g (lat start_coords) (lon start_coords) azimuth distance_m;
          verification =
            Inverse g (lat start_coords) (lon start_coords) (lat2 result) (lon2 result);
          distance_error_m = \<bar>s12 verification - distance_m\<bar>;
          calls = [DirectCall (lat start_coords) (lon start_coords) azimuth distance_m,
                   InverseCall (lat start_coords) (lon start_coords) (lat2 result) (lon2 result)];
          num_steps = \<lfloor>distance_nm / 500\<rfloor>;
          walk = multi_step g azimuth (distance_m / of_int num_steps) (nat num_steps) start_coords
      in if distance_error_m \<le> 0.1 \<or> distance_nm < 1000
         then (new_Coordinates (lat2 result) (lon2 result), calls)
         else (fst walk, calls @ snd walk))"
proof (cases "distance_nm < 1000")
  case True
  then show ?thesis
    by (simp add: calculate_target_coords_geodesic_def Let_def num_steps_small
        nm_to_meters_def METERS_PER_NM_def)
next
  case False
  then have "1000 \<le> distance_nm" by simp
  from num_steps_large[OF this] show ?thesis using False
    by (simp add: calculate_target_coords_geodesic_def Let_def nm_to_meters_def
        METERS_PER_NM_def split_beta)
qed

lemma project_immediate:
  "length (snd (calculate_target_coords_geodesic g start_coords azimuth distance_nm)) = 2 \<longleftrightarrow>
     (\<bar>s12 (Inverse g (lat start_coords) (lon start_coords)
            (lat2 (Direct g (lat start_coords) (lon start_coords) azimuth (distance_nm * 1852)))
            (lon2 (Direct g (lat start_coords) (lon start_coords) azimuth (distance_nm * 1852))))
        - distance_nm * 1852\<bar> \<le> 0.1 \<or> distance_nm < 1000)"
proof (cases "distance_nm < 1000")
  case True
  then show ?thesis by (simp add: project_eq Let_def)
next
  case False
  then have "1000 \<le> distance_nm" by simp
  from num_steps_large[OF this] have "2 \<le> \<lfloor>distance_nm / 500\<rfloor>" by simp
  then obtain n where n: "nat \<lfloor>distance_nm / 500\<rfloor> = Suc n"
    by (cases "nat \<lfloor>distance_nm / 500\<rfloor>") auto
  show ?thesis using False multi_step_calls_nonempty[of g azimuth _ n start_coords]
    by (simp add: project_eq Let_def n)
qed

text \<open>
  C10. For a distance below 1000 nautical miles \<^verbatim>\<open>calculate_target_coords_geodesic\<close> of
  \<^verbatim>\<open>vor_fix_calculation.py\<close> returns \<^verbatim>\<open>Coordinates\<close> of the single forward call after
  one forward and one inverse call, whatever the verified error is: \<open>num_steps\<close> is 1, so
  the multi-step branch is not entered.
\<close>

theorem single_step_below_1000:
  "distance_nm < 1000 \<Longrightarrow>
   max 1 (py_int (distance_nm / 500)) = 1
   \<and> calculate_target_coords_geodesic g start_coords azimuth distance_nm =
     (new_Coordinates
        (lat2 (Direct g (lat start_coords) (lon start_coords) azimuth (nm_to_meters distance_nm)))
        (lon2 (Direct g (lat start_coords) (lon start_coords) azimuth (nm_to_meters distance_nm))),
      [DirectCall (lat start_coords) (lon start_coords) azimuth (nm_to_meters distance_nm),
       InverseCall (lat start_coords) (lon start_coords)
         (lat2 (Direct g (lat start_coords) (lon start_coords) azimuth (nm_to_meters distance_nm)))
         (lon2 (Direct g (lat start_coords) (lon start_coords) azimuth (nm_to_meters distance_nm)))])"
  by (simp add: calculate_target_coords_geodesic_def Let_def num_steps_small)

text \<open>
  With an \<^verbatim>\<open>Inverse\<close> that doubles every distance the verified error at 100 nautical
  miles is 185200 m, and the single-step point is returned all the same.
\<close>

theorem single_step_below_1000_witness:
  "(100::real) < 1000
   \<and> \<bar>s12 (Inverse (strip 2) 0 0 0 (5/3)) - nm_to_meters 100\<bar> = 185200
   \<and> calculate_target_coords_geodesic (strip 2) \<lparr>lat = 0, lon = 0\<rparr> 90 100 =
       (Inr \<lparr>lat = 0, lon = 5/3\<rparr>, [DirectCall 0 0 90 185200, InverseCall 0 0 0 (5/3)])"
  using single_step_below_1000[of 100 "strip 2" "\<lparr>lat = 0, lon = 0\<rparr>" 90]
  by (simp add: strip_def nm_to_meters_def METERS_PER_NM_def new_Coordinates_def)


lemma walk_one:
  "walk_spec g az sd (Suc 0) c =
     new_Coordinates (lat2 (Direct g (lat c) (lon c) az sd)) (lon2 (Direct g (lat c) (lon c) az sd))"
  by (simp add: Let_def split: sum.splits)








section \<open>The search range\<close>

lemma search_range_cases:
  "search_range d t =
     (if t < 0.05 then (0, 0.2)
      else if t < 0.5 then (0, max 1 (2 * t))
      else if max 0 (d - t - 1) \<ge> d + t + 1 then (0, max 1 (2 * t))
      else (max 0 (d - t - 1), d + t + 1))"
  by (auto simp: search_range_def Let_def)

lemma search_range_fallback:
  "fst (search_range_unchecked d t) \<ge> snd (search_range_unchecked d t) \<Longrightarrow>
   search_range d t = (0, max 1 (2 * t))"
  by (auto simp: search_range_def search_range_unchecked_def Let_def split: if_splits)

lemma search_range_keeps:
  "fst (search_range_unchecked d t) < snd (search_range_unchecked d t) \<Longrightarrow>
   search_range d t = search_range_unchecked d t"
  by (auto simp: search_range_def search_range_unchecked_def Let_def split: if_splits)

lemma search_range_unchecked_eq:
  "0 \<le> d \<Longrightarrow> search_range_unchecked d t = search_range d t"
  by (auto simp: search_range_def search_range_unchecked_def Let_def split: if_splits)

lemma search_range_nonempty: "fst (search_range d t) < snd (search_range d t)"
  by (auto simp: search_range_def Let_def split: if_splits)

lemma search_range_unchecked_cases:
  "search_range_unchecked d t =
     (if t < 0.05 then (0, 0.2)
      else if t < 0.5 then (0, max 1 (2 * t))
      else (max 0 (d - t - 1), d + t + 1))"
  by (simp add: search_range_unchecked_def mult.commute)

lemma intersection_search_start:
  "intersection_search g fix_coords true_bearing dme_coords distance_nm =
     search_loop 200 g fix_coords true_bearing dme_coords (distance_nm * 1852)
       \<lparr>min_dist = fst (search_range
            (s12 (Inverse g (lat fix_coords) (lon fix_coords) (lat dme_coords) (lon dme_coords))
               / 1852) distance_nm),
        max_dist = snd (search_range
            (s12 (Inverse g (lat fix_coords) (lon fix_coords) (lat dme_coords) (lon dme_coords))
               / 1852) distance_nm),
        best_approx_distance = None,
        best_approx_point = (case new_Coordinates (lat fix_coords) (lon fix_coords) of
                               Inr c \<Rightarrow> c | Inl e \<Rightarrow> \<lparr>lat = 0, lon = 0\<rparr>),
        probes = []\<rparr>"
  by (simp add: intersection_search_def Let_def split_beta MAX_ITERATIONS_def
      nm_to_meters_def meters_to_nm_def METERS_PER_NM_def)

lemma stag_intersection_search_start:
  "stag_intersection_search g lat_fix lon_fix true_bearing lat_dme lon_dme distance_nm =
     stag_loop 200 g lat_fix lon_fix true_bearing lat_dme lon_dme (distance_nm * 1852)
       \<lparr>min_dist = fst (search_range_unchecked
            (s12 (Inverse g lat_fix lon_fix lat_dme lon_dme) / 1852) distance_nm),
        max_dist = snd (search_range_unchecked
            (s12 (Inverse g lat_fix lon_fix lat_dme lon_dme) / 1852) distance_nm),
        best_approx_distance = None, best_approx_point = \<lparr>lat = 0, lon = 0\<rparr>, probes = [],
        prev_error = None, stagnation_counter = 0, intersection_found = False,
        passes = []\<rparr>"
  by (simp add: stag_intersection_search_def Let_def split_beta MAX_ITERATIONS_def
      nm_to_meters_def meters_to_nm_def METERS_PER_NM_def)

text \<open>
  C2. The search range of \<^verbatim>\<open>_find_radial_distance_intersection\<close> is \<open>[0, 0.2]\<close> for a
  target below 0.05, \<open>[0, max(1, 2 * target)]\<close> for a target from 0.05 and below 0.5,
  and otherwise \<open>[max(0, d - target - 1), d + target + 1]\<close>; whenever the bounds so
  computed have \<open>min \<ge> max\<close> the range is \<open>[0, max(1, 2 * target)]\<close>. The loop starts
  with this range, taken at \<open>d = s12 / 1852\<close>, where \<open>s12\<close> is the distance in metres
  that the oracle's \<^verbatim>\<open>Inverse\<close> gives from the FIX to the DME, and runs with the
  target in metres, \<open>distance_nm * 1852\<close>. The revision with the stagnation correction
  computes the same three cases from the same \<open>d\<close> without the check, which gives the
  same range whenever the oracle's distance is not negative.
\<close>

theorem search_range_policy:
  "search_range d t =
     (if t < 0.05 then (0, 0.2)
      else if t < 0.5 then (0, max 1 (2 * t))
      else if max 0 (d - t - 1) \<ge> d + t + 1 then (0, max 1 (2 * t))
      else (max 0 (d - t - 1), d + t + 1))
   \<and> search_range_unchecked d t =
     (if t < 0.05 then (0, 0.2)
      else if t < 0.5 then (0, max 1 (2 * t))
      else (max 0 (d - t - 1), d + t + 1))
   \<and> (fst (search_range_unchecked d t) \<ge> snd (search_range_unchecked d t) \<longrightarrow>
        search_range d t = (0, max 1 (2 * t)))
   \<and> (fst (search_range_unchecked d t) < snd (search_range_unchecked d t) \<longrightarrow>
        search_range d t = search_range_unchecked d t)
   \<and> (0 \<le> d \<longrightarrow> search_range_unchecked d t = search_range d t)
   \<and> intersection_search g fix_coords true_bearing dme_coords distance_nm =
       search_loop 200 g fix_coords true_bearing dme_coords (distance_nm * 1852)
         \<lparr>min_dist = fst (search_range
              (s12 (Inverse g (lat fix_coords) (lon fix_coords)
                      (lat dme_coords) (lon dme_coords)) / 1852) distance_nm),
          max_dist = snd (search_range
              (s12 (Inverse g (lat fix_coords) (lon fix_coords)
                      (lat dme_coords) (lon dme_coords)) / 1852) distance_nm),
          best_approx_distance = None,
          best_approx_point = (case new_Coordinates (lat fix_coords) (lon fix_coords) of
                                 Inr c \<Rightarrow> c | Inl e \<Rightarrow> \<lparr>lat = 0, lon = 0\<rparr>),
          probes = []\<rparr>
   \<and> stag_intersection_search g lat_fix lon_fix true_bearing lat_dme lon_dme distance_nm =
       stag_loop 200 g lat_fix lon_fix true_bearing lat_dme lon_dme (distance_nm * 1852)
         \<lparr>min_dist = fst (search_range_unchecked
              (s12 (Inverse g lat_fix lon_fix lat_dme lon_dme) / 1852) distance_nm),
          max_dist = snd (search_range_unchecked
              (s12 (Inverse g lat_fix lon_fix lat_dme lon_dme) / 1852) distance_nm),
          best_approx_distance = None, best_approx_point = \<lparr>lat = 0, lon = 0\<rparr>,
          probes = [], prev_error = None, stagnation_counter = 0,
          intersection_found = False, passes = []\<rparr>"
  by (intro conjI impI)
    (rule search_range_cases search_range_unchecked_cases search_range_fallback
       search_range_keeps search_range_unchecked_eq intersection_search_start
       stag_intersection_search_start; assumption)+

text \<open>
  On the strip, with the DME 20 nautical miles east of the FIX (\<open>s12 = 37040\<close>) and a
  target of 3, the range is \<open>[16, 24]\<close>. A negative distance, which no oracle returns,
  is what the check is for: at \<open>d = -5\<close> and target 1 the computed bounds are
  \<open>[0, -3]\<close> and the range is \<open>[0, 2]\<close>.
\<close>

theorem search_range_policy_witness:
  "search_range 10 0.01 = (0, 0.2)
   \<and> search_range 10 0.3 = (0, 1)
   \<and> search_range 10 3 = (6, 14)
   \<and> s12 (Inverse (strip 1) 0 0 0 (1/3)) = 37040
   \<and> search_range (s12 (Inverse (strip 1) 0 0 0 (1/3)) / 1852) 3 = (16, 24)
   \<and> search_range_unchecked (s12 (Inverse (strip 1) 0 0 0 (1/3)) / 1852) 3 = (16, 24)
   \<and> fst (search_range_unchecked (-5) 1) \<ge> snd (search_range_unchecked (-5) 1)
   \<and> search_range (-5) 1 = (0, 2)
   \<and> (0::real) \<le> 10 \<and> search_range_unchecked 10 3 = (6, 14)"
proof -
  have a: "search_range 10 0.01 = (0, 0.2)"
    using search_range_policy[of 10 "0.01", THEN conjunct1] by simp
  have b: "search_range 10 0.3 = (0, 1)"
    using search_range_policy[of 10 "0.3", THEN conjunct1] by simp
  have c: "search_range 10 3 = (6, 14)"
    using search_range_policy[of 10 3, THEN conjunct1] by simp
  have s: "s12 (Inverse (strip 1) 0 0 0 (1/3)) = 37040" by (simp add: strip_def)
  have f: "search_range (s12 (Inverse (strip 1) 0 0 0 (1/3)) / 1852) 3 = (16, 24)"
    unfolding s using search_range_policy[of "37040 / 1852" 3, THEN conjunct1] by simp
  have f': "search_range_unchecked (s12 (Inverse (strip 1) 0 0 0 (1/3)) / 1852) 3 = (16, 24)"
    unfolding s
    using search_range_policy[of "37040 / 1852" 3, THEN conjunct2, THEN conjunct1] by simp
  have h: "fst (search_range_unchecked (-5) 1) \<ge> snd (search_range_unchecked (-5) 1)"
    by (simp add: search_range_unchecked_def)
  have d: "search_range (-5) 1 = (0, 2)"
    using search_range_policy[of "-5" 1, THEN conjunct2, THEN conjunct2, THEN conjunct1] h
    by simp
  have e: "search_range_unchecked 10 3 = (6, 14)"
    using search_range_policy[of 10 3, THEN conjunct2, THEN conjunct2, THEN conjunct2,
        THEN conjunct2, THEN conjunct1] c by simp
  show ?thesis using a b c s f f' h d e by simp
qed

section \<open>The bisection loop of \<^verbatim>\<open>_find_radial_distance_intersection\<close>\<close>

lemma tracked_step:
  assumes "tracked s" "probes s' = probes s @ [q]"
    "best_approx_distance s' =
       (if less_inf (abs_error_m q) (best_approx_distance s) then Some (abs_error_m q)
        else best_approx_distance s)"
    "best_approx_point s' =
       (if less_inf (abs_error_m q) (best_approx_distance s) then at_point q
        else best_approx_point s)"
  shows "tracked s'"
proof (cases "probes s = []")
  case True
  with assms show ?thesis by (simp add: tracked_def)
next
  case False
  with assms(1) obtain p where p: "p \<in> set (probes s)"
    "best_approx_distance s = Some (abs_error_m p)" "best_approx_point s = at_point p"
    "\<forall>r \<in> set (probes s). abs_error_m p \<le> abs_error_m r"
    by (auto simp: tracked_def)
  show ?thesis
  proof (cases "abs_error_m q < abs_error_m p")
    case True
    then have "\<forall>r \<in> set (probes s'). abs_error_m q \<le> abs_error_m r"
      using p(4) assms(2) by fastforce
    then show ?thesis using True p assms by (auto simp: tracked_def)
  next
    case False
    then have "\<forall>r \<in> set (probes s'). abs_error_m p \<le> abs_error_m r"
      using p(4) assms(2) by fastforce
    then show ?thesis using False p assms by (auto simp: tracked_def)
  qed
qed

lemma search_loop_unfold:
  "0 < n \<Longrightarrow> search_loop n g f b d dm s =
     (case search_pass g f b d dm s of
        Inl e \<Rightarrow> Inl e
      | Inr (Break s') \<Rightarrow> Inr s'
      | Inr (Next s') \<Rightarrow> search_loop (n - 1) g f b d dm s')"
  by (cases n) (simp_all split: sum.split flow.split)

lemma search_pass_raises:
  "search_pass g f b d dm s = Inl e \<Longrightarrow>
   new_Coordinates
     (lat2 (Direct g (lat f) (lon f) b (nm_to_meters ((min_dist s + max_dist s) / 2))))
     (lon2 (Direct g (lat f) (lon f) b (nm_to_meters ((min_dist s + max_dist s) / 2)))) = Inl e"
  by (simp add: search_pass_def Let_def split: sum.splits if_splits)

lemma new_Coordinates_point:
  "new_Coordinates la lo = Inr p \<Longrightarrow> p = \<lparr>lat = la, lon = lo\<rparr>"
  by (simp add: new_Coordinates_def split: if_splits)

lemma search_pass_cases:
  "search_pass g f b d dm s =
     (case new_Coordinates
             (lat2 (Direct g (lat f) (lon f) b (nm_to_meters ((min_dist s + max_dist s) / 2))))
             (lon2 (Direct g (lat f) (lon f) b (nm_to_meters ((min_dist s + max_dist s) / 2))))
      of Inl e \<Rightarrow> Inl e
       | Inr p \<Rightarrow>
           Inr (let t = (min_dist s + max_dist s) / 2;
                    m = to_dme g p (lat d) (lon d);
                    e = \<bar>m - dm\<bar>;
                    s1 = (if less_inf e (best_approx_distance s)
                          then s\<lparr>best_approx_distance := Some e, best_approx_point := p\<rparr>
                          else s)
                in if e < 1 then Break (log_probe t p m e s1)
                   else let s2 = (if m > dm then s1\<lparr>max_dist := t\<rparr>
                                  else s1\<lparr>min_dist := t\<rparr>)
                        in if max_dist s2 - min_dist s2 < 0.000001
                           then Break (log_probe t p m e s2)
                           else Next (log_probe t p m e s2)))"
  by (simp add: search_pass_def Let_def DISTANCE_TOLERANCE_M_def to_dme_def
      split: sum.splits)

lemma search_pass_valid:
  assumes "search_pass g f b d dm s = Inr fl"
  shows "fl =
    (let t = (min_dist s + max_dist s) / 2;
         p = point_at g (lat f) (lon f) b t;
         m = to_dme g p (lat d) (lon d);
         e = \<bar>m - dm\<bar>;
         s1 = (if less_inf e (best_approx_distance s)
               then s\<lparr>best_approx_distance := Some e, best_approx_point := p\<rparr> else s)
     in if e < 1 then Break (log_probe t p m e s1)
        else let s2 = (if m > dm then s1\<lparr>max_dist := t\<rparr> else s1\<lparr>min_dist := t\<rparr>)
             in if max_dist s2 - min_dist s2 < 0.000001 then Break (log_probe t p m e s2)
                else Next (log_probe t p m e s2))"
proof -
  define r where "r = Direct g (lat f) (lon f) b (nm_to_meters ((min_dist s + max_dist s) / 2))"
  note c = search_pass_cases[of g f b d dm s, folded r_def]
  obtain p where p: "new_Coordinates (lat2 r) (lon2 r) = Inr p"
    using assms unfolding c by (cases "new_Coordinates (lat2 r) (lon2 r)") simp_all
  from new_Coordinates_point[OF p]
  have pt: "p = point_at g (lat f) (lon f) b ((min_dist s + max_dist s) / 2)"
    by (simp add: point_at_def r_def Let_def)
  from assms show ?thesis unfolding c p pt by (auto simp add: Let_def)
qed

lemma search_pass_effect:
  assumes "search_pass g f b d dm s = Inr fl"
  shows "\<exists>q. probes (landed fl) = probes s @ [q]
      \<and> at_dist q = (min_dist s + max_dist s) / 2
      \<and> measured g (lat f) (lon f) b (lat d) (lon d) dm q
      \<and> range_min q = min_dist (landed fl) \<and> range_max q = max_dist (landed fl)
      \<and> best_approx_distance (landed fl) =
          (if less_inf (abs_error_m q) (best_approx_distance s) then Some (abs_error_m q)
           else best_approx_distance s)
      \<and> best_approx_point (landed fl) =
          (if less_inf (abs_error_m q) (best_approx_distance s) then at_point q
           else best_approx_point s)
      \<and> (is_Break fl \<longleftrightarrow> abs_error_m q < 1 \<or> width q < 0.000001)"
  unfolding search_pass_valid[OF assms] Let_def log_probe_def measured_def width_def
  by simp

lemma search_loop_raises:
  "search_loop n g f b d dm s = Inl e \<Longrightarrow>
   \<exists>t. new_Coordinates (lat2 (Direct g (lat f) (lon f) b (nm_to_meters t)))
          (lon2 (Direct g (lat f) (lon f) b (nm_to_meters t))) = Inl e"
proof (induction n arbitrary: s)
  case 0
  then show ?case by simp
next
  case (Suc n)
  show ?case
  proof (cases "search_pass g f b d dm s")
    case (Inl e')
    with Suc.prems have "e' = e" by simp
    with search_pass_raises[OF Inl] show ?thesis by blast
  next
    case (Inr fl)
    show ?thesis
    proof (cases fl)
      case (Break s1)
      with Inr Suc.prems show ?thesis by simp
    next
      case (Next s1)
      with Inr Suc.prems have "search_loop n g f b d dm s1 = Inl e" by simp
      then show ?thesis by (rule Suc.IH)
    qed
  qed
qed

lemma search_loop_run:
  assumes "search_loop n g f b d dm s = Inr s'"
  shows "\<exists>new. probes s' = probes s @ new \<and> length new \<le> n \<and> (0 < n \<longrightarrow> new \<noteq> [])
      \<and> (\<forall>q \<in> set new. measured g (lat f) (lon f) b (lat d) (lon d) dm q)
      \<and> (\<forall>q \<in> set (butlast new). 1 \<le> abs_error_m q \<and> 0.000001 \<le> width q)
      \<and> (length new < n \<longrightarrow> abs_error_m (last new) < 1 \<or> width (last new) < 0.000001)
      \<and> (new \<noteq> [] \<longrightarrow>
            range_min (last new) = min_dist s' \<and> range_max (last new) = max_dist s')
      \<and> (tracked s \<longrightarrow> tracked s')"
  using assms
proof (induction n arbitrary: s)
  case 0
  then show ?case by simp
next
  case (Suc n)
  from Suc.prems obtain fl where pass: "search_pass g f b d dm s = Inr fl"
    by (cases "search_pass g f b d dm s") simp_all
  from search_pass_effect[OF pass] obtain q where
    pr: "probes (landed fl) = probes s @ [q]" and
    me: "measured g (lat f) (lon f) b (lat d) (lon d) dm q" and
    rg: "range_min q = min_dist (landed fl) \<and> range_max q = max_dist (landed fl)" and
    bd: "best_approx_distance (landed fl) =
          (if less_inf (abs_error_m q) (best_approx_distance s) then Some (abs_error_m q)
           else best_approx_distance s)" and
    bp: "best_approx_point (landed fl) =
          (if less_inf (abs_error_m q) (best_approx_distance s) then at_point q
           else best_approx_point s)" and
    br: "is_Break fl \<longleftrightarrow> abs_error_m q < 1 \<or> width q < 0.000001"
    by blast
  have tr: "tracked s \<Longrightarrow> tracked (landed fl)"
    using tracked_step[OF _ pr bd bp] .
  show ?case
  proof (cases fl)
    case (Break s1)
    then have "s' = s1" using pass Suc.prems by simp
    moreover have "probes s1 = probes s @ [q]" using pr Break by simp
    moreover have "abs_error_m q < 1 \<or> width q < 0.000001" using br Break by simp
    moreover have "tracked s \<longrightarrow> tracked s1" using tr Break by simp
    moreover have "range_min q = min_dist s1 \<and> range_max q = max_dist s1"
      using rg Break by simp
    ultimately show ?thesis using me
      by (intro exI[of _ "[q]"]) simp
  next
    case (Next s1)
    then have loop: "search_loop n g f b d dm s1 = Inr s'"
      using pass Suc.prems by simp
    have q: "1 \<le> abs_error_m q \<and> 0.000001 \<le> width q" using br Next by auto
    from Suc.IH[OF loop] obtain new where
      r: "probes s' = probes s1 @ new"
         "length new \<le> n" "0 < n \<longrightarrow> new \<noteq> []"
         "\<forall>q \<in> set new. measured g (lat f) (lon f) b (lat d) (lon d) dm q"
         "\<forall>q \<in> set (butlast new). 1 \<le> abs_error_m q \<and> 0.000001 \<le> width q"
         "length new < n \<longrightarrow> abs_error_m (last new) < 1 \<or> width (last new) < 0.000001"
         "tracked s1 \<longrightarrow> tracked s'"
         "new \<noteq> [] \<longrightarrow>
            range_min (last new) = min_dist s' \<and> range_max (last new) = max_dist s'"
      by blast
    have p1: "probes s' = probes s @ (q # new)" using r(1) pr Next by simp
    have b1: "\<forall>x \<in> set (butlast (q # new)). 1 \<le> abs_error_m x \<and> 0.000001 \<le> width x"
      using q r(5) by (cases new) auto
    have l1: "length (q # new) < Suc n \<longrightarrow>
               abs_error_m (last (q # new)) < 1 \<or> width (last (q # new)) < 0.000001"
      using r(2,3,6) by (cases new) auto
    have t1: "tracked s \<longrightarrow> tracked s'" using tr r(7) Next by simp
    have g1: "range_min (last (q # new)) = min_dist s' \<and> range_max (last (q # new)) = max_dist s'"
    proof (cases new)
      case Nil
      then have "n = 0" using r(3) by simp
      then have "s' = s1" using loop by simp
      then show ?thesis using rg Next Nil by simp
    next
      case (Cons x xs)
      then show ?thesis using r(8) by simp
    qed
    show ?thesis using r(2,4) p1 b1 l1 t1 me g1
      by (intro exI[of _ "q # new"]) simp
  qed
qed

text \<open>The whole function, from its first line to the end of the loop.\<close>

lemma intersection_search_raises:
  assumes "intersection_search g f b d dn = Inl e"
  shows "find_radial_distance_intersection g f b d dn = Inl e
      \<and> (\<exists>t. new_Coordinates (lat2 (Direct g (lat f) (lon f) b (nm_to_meters t)))
                (lon2 (Direct g (lat f) (lon f) b (nm_to_meters t))) = Inl e)"
proof -
  have "find_radial_distance_intersection g f b d dn = Inl e"
    by (simp add: find_radial_distance_intersection_def assms)
  moreover from assms have "\<exists>s. search_loop 200 g f b d (nm_to_meters dn) s = Inl e"
    unfolding intersection_search_def Let_def split_beta MAX_ITERATIONS_def by blast
  then have "\<exists>t. new_Coordinates (lat2 (Direct g (lat f) (lon f) b (nm_to_meters t)))
                (lon2 (Direct g (lat f) (lon f) b (nm_to_meters t))) = Inl e"
    using search_loop_raises by blast
  ultimately show ?thesis by simp
qed

lemma intersection_search_run:
  assumes "intersection_search g f b d dn = Inr s"
  shows "find_radial_distance_intersection g f b d dn = Inr (best_approx_point s)
      \<and> probes s \<noteq> [] \<and> length (probes s) \<le> 200
      \<and> (\<forall>q \<in> set (probes s). measured g (lat f) (lon f) b (lat d) (lon d) (nm_to_meters dn) q)
      \<and> (\<forall>q \<in> set (butlast (probes s)). 1 \<le> abs_error_m q \<and> 0.000001 \<le> width q)
      \<and> (length (probes s) < 200 \<longrightarrow>
            abs_error_m (last (probes s)) < 1 \<or> width (last (probes s)) < 0.000001)
      \<and> range_min (last (probes s)) = min_dist s \<and> range_max (last (probes s)) = max_dist s
      \<and> tracked s"
proof -
  define s0 where "s0 =
     \<lparr>min_dist = fst (search_range
          (meters_to_nm (s12 (Inverse g (lat f) (lon f) (lat d) (lon d)))) dn),
      max_dist = snd (search_range
          (meters_to_nm (s12 (Inverse g (lat f) (lon f) (lat d) (lon d)))) dn),
      best_approx_distance = None,
      best_approx_point = (case new_Coordinates (lat f) (lon f) of
                             Inr c \<Rightarrow> c | Inl e \<Rightarrow> \<lparr>lat = 0, lon = 0\<rparr>),
      probes = []\<rparr>"
  have run: "intersection_search g f b d dn = search_loop 200 g f b d (nm_to_meters dn) s0"
    by (simp add: intersection_search_def Let_def split_beta s0_def MAX_ITERATIONS_def)
  have t0: "tracked s0" "probes s0 = []" by (simp_all add: tracked_def s0_def)
  from assms run have "search_loop 200 g f b d (nm_to_meters dn) s0 = Inr s" by simp
  from search_loop_run[OF this] t0 obtain new where
    r: "probes s = new"
       "length new \<le> 200" "new \<noteq> []"
       "\<forall>q \<in> set new. measured g (lat f) (lon f) b (lat d) (lon d) (nm_to_meters dn) q"
       "\<forall>q \<in> set (butlast new). 1 \<le> abs_error_m q \<and> 0.000001 \<le> width q"
       "length new < 200 \<longrightarrow> abs_error_m (last new) < 1 \<or> width (last new) < 0.000001"
       "tracked s"
       "range_min (last new) = min_dist s \<and> range_max (last new) = max_dist s"
    by auto
  have "find_radial_distance_intersection g f b d dn = Inr (best_approx_point s)"
    by (simp add: find_radial_distance_intersection_def assms)
  then show ?thesis using r by simp
qed

section \<open>The stagnation correction\<close>



lemma adjust_bounds_fields:
  "stagnation_counter (adjust_bounds td tm dm s) = 0"
  "passes (adjust_bounds td tm dm s) = passes s"
  "prev_error (adjust_bounds td tm dm s) = prev_error s"
  "probes (adjust_bounds td tm dm s) = probes s"
  "best_approx_distance (adjust_bounds td tm dm s) = best_approx_distance s"
  "best_approx_point (adjust_bounds td tm dm s) = best_approx_point s"
  by (simp_all add: adjust_bounds_def Let_def)

lemma keep_best_fields:
  "stagnation_counter (keep_best e p s) = stagnation_counter s"
  "passes (keep_best e p s) = passes s"
  "prev_error (keep_best e p s) = prev_error s"
  "probes (keep_best e p s) = probes s"
  "min_dist (keep_best e p s) = min_dist s"
  "max_dist (keep_best e p s) = max_dist s"
  by (simp_all add: keep_best_def)

lemma log_probe_fields:
  "stagnation_counter (log_probe t p m e s) = stagnation_counter s"
  "passes (log_probe t p m e s) = passes s"
  "prev_error (log_probe t p m e s) = prev_error s"
  "min_dist (log_probe t p m e s) = min_dist s"
  "max_dist (log_probe t p m e s) = max_dist s"
  "best_approx_distance (log_probe t p m e s) = best_approx_distance s"
  "best_approx_point (log_probe t p m e s) = best_approx_point s"
  by (simp_all add: log_probe_def)

lemma correction_passes:
  "passes (landed (stagnation_correction g la lo b lad lod dm td tm s)) = passes s"
  by (simp add: stagnation_correction_def Let_def adjust_bounds_fields keep_best_fields log_probe_fields)


lemma stag_pass_eq:
  assumes "t = (min_dist s + max_dist s) / 2" "p = point_at g la lo b t"
    "m = to_dme g p lad lod" "e = \<bar>m - dm\<bar>" "small = little_progress (prev_error s) e"
    "s1 = log_probe t p m e (keep_best e p s)"
    "c' = (if small then stagnation_counter s + 1 else 0)"
  shows "stag_pass g la lo b lad lod dm s =
    (if e < 1 then
       Break (s1\<lparr>intersection_found := True,
                 passes := passes s @ [\<lparr>mid_error = e, small_change = small, fired = False\<rparr>]\<rparr>)
     else if c' > 5 then
       stagnation_correction g la lo b lad lod dm t m
         (s1\<lparr>stagnation_counter := c',
              passes := passes s @ [\<lparr>mid_error = e, small_change = small, fired = True\<rparr>]\<rparr>)
     else if max_dist (if m > dm then s1\<lparr>max_dist := t\<rparr> else s1\<lparr>min_dist := t\<rparr>)
               - min_dist (if m > dm then s1\<lparr>max_dist := t\<rparr> else s1\<lparr>min_dist := t\<rparr>) < 0.000001
     then Break ((if m > dm then s1\<lparr>max_dist := t\<rparr> else s1\<lparr>min_dist := t\<rparr>)
                  \<lparr>stagnation_counter := c', prev_error := Some e,
                   passes := passes s @ [\<lparr>mid_error = e, small_change = small, fired = False\<rparr>]\<rparr>)
     else Next ((if m > dm then s1\<lparr>max_dist := t\<rparr> else s1\<lparr>min_dist := t\<rparr>)
                  \<lparr>stagnation_counter := c', prev_error := Some e,
                   passes := passes s @ [\<lparr>mid_error = e, small_change = small, fired = False\<rparr>]\<rparr>))"
  unfolding assms stag_pass_def DISTANCE_TOLERANCE_M_def
  by (simp add: Let_def keep_best_fields log_probe_fields)





lemma stag_loop_unfold:
  "0 < n \<Longrightarrow> stag_loop n g la lo b lad lod dm s =
     (case stag_pass g la lo b lad lod dm s of
        Break s' \<Rightarrow> s'
      | Next s' \<Rightarrow> stag_loop (n - 1) g la lo b lad lod dm s')"
  by (cases n) (simp_all split: flow.split)




lemma correction_best:
  assumes "e1 = to_dme g (point_at g la lo b (min_dist s)) lad lod - dm"
    "e2 = to_dme g (point_at g la lo b (max_dist s)) lad lod - dm"
    "c = corrected_dist g la lo b lad lod dm td s"
    "ec = \<bar>to_dme g (point_at g la lo b c) lad lod - dm\<bar>"
    "fl = stagnation_correction g la lo b lad lod dm td tm s"
  shows "best_approx_distance (landed fl) =
           (if e1 \<noteq> e2 \<and> less_inf ec (best_approx_distance s) then Some ec
            else best_approx_distance s)
       \<and> best_approx_point (landed fl) =
           (if e1 \<noteq> e2 \<and> less_inf ec (best_approx_distance s) then point_at g la lo b c
            else best_approx_point s)
       \<and> (is_Break fl \<longleftrightarrow> e1 \<noteq> e2 \<and> ec < 1)"
  unfolding assms stagnation_correction_def Let_def DISTANCE_TOLERANCE_M_def
  by (simp add: adjust_bounds_fields log_probe_fields keep_best_def)



lemma adjust_bounds_outside:
  assumes "\<not> (min_dist s < c \<and> c < max_dist s)"
  shows "min_dist (adjust_bounds c tm dm s) = (min_dist s + max_dist s) / 3
   \<and> max_dist (adjust_bounds c tm dm s) = 2 * ((min_dist s + max_dist s) / 3 + max_dist s) / 3"
  using assms by (cases "min_dist s < c") (simp_all add: adjust_bounds_def Let_def)









section \<open>The revision with the stagnation correction: what a run logs\<close>

lemma tracked_fields:
  "probes s' = probes s \<Longrightarrow> best_approx_distance s' = best_approx_distance s \<Longrightarrow>
   best_approx_point s' = best_approx_point s \<Longrightarrow> tracked s' = tracked s"
  by (simp add: tracked_def)

lemma tracked_keep_log:
  assumes "tracked s"
  shows "tracked (log_probe t p m e (keep_best e p s))"
  by (rule tracked_step[OF assms, where q = "\<lparr>at_dist = t, at_point = p, to_dme_m = m,
        abs_error_m = e, range_min = min_dist s, range_max = max_dist s\<rparr>"])
     (simp_all add: log_probe_def keep_best_def)

lemma correction_tracked:
  assumes "tracked s"
  shows "tracked (landed (stagnation_correction g la lo b lad lod dm td tm s))"
proof -
  have a: "tracked (adjust_bounds c tm dm x) = tracked x" for c x
    by (rule tracked_fields) (simp_all add: adjust_bounds_fields)
  have b: "tracked (x\<lparr>intersection_found := True\<rparr>) = tracked x" for x :: stag_search
    by (rule tracked_fields) simp_all
  show ?thesis
    using assms tracked_keep_log[OF assms]
    by (simp add: stagnation_correction_def Let_def a b)
qed

lemma stag_pass_tracked:
  assumes "tracked s"
  shows "tracked (landed (stag_pass g la lo b lad lod dm s))"
proof -
  define t where "t = (min_dist s + max_dist s) / 2"
  define p where "p = point_at g la lo b t"
  define m where "m = to_dme g p lad lod"
  define e where "e = \<bar>m - dm\<bar>"
  define small where "small = little_progress (prev_error s) e"
  define s1 where "s1 = log_probe t p m e (keep_best e p s)"
  define c' where "c' = (if small then stagnation_counter s + 1 else 0)"
  note eq = stag_pass_eq[OF t_def p_def m_def e_def small_def s1_def c'_def]
  have t1: "tracked s1" unfolding s1_def by (rule tracked_keep_log[OF assms])
  have u: "tracked x" if "probes x = probes s1" "best_approx_distance x = best_approx_distance s1"
    "best_approx_point x = best_approx_point s1" for x :: stag_search
    using tracked_fields[OF that] t1 by simp
  show ?thesis
    unfolding eq
    by (auto intro!: u correction_tracked)
qed

lemma stag_loop_tracked:
  "tracked s \<Longrightarrow> tracked (stag_loop n g la lo b lad lod dm s)"
proof (induction n arbitrary: s)
  case 0
  then show ?case by simp
next
  case (Suc n)
  from stag_pass_tracked[OF Suc.prems, of g la lo b lad lod dm]
  show ?case
    by (cases "stag_pass g la lo b lad lod dm s") (auto intro: Suc.IH)
qed

lemma corrected_dist_range:
  "min_dist s' = min_dist s \<Longrightarrow> max_dist s' = max_dist s \<Longrightarrow>
   corrected_dist g la lo b lad lod dm td s' = corrected_dist g la lo b lad lod dm td s"
  by (simp add: corrected_dist_def)

lemma correction_probes:
  assumes "e1 = to_dme g (point_at g la lo b (min_dist s)) lad lod - dm"
    "e2 = to_dme g (point_at g la lo b (max_dist s)) lad lod - dm"
    "c = corrected_dist g la lo b lad lod dm td s"
  shows "probes (landed (stagnation_correction g la lo b lad lod dm td tm s)) =
     probes s @
       (if e1 \<noteq> e2
        then [\<lparr>at_dist = c, at_point = point_at g la lo b c,
               to_dme_m = to_dme g (point_at g la lo b c) lad lod,
               abs_error_m = \<bar>to_dme g (point_at g la lo b c) lad lod - dm\<bar>,
               range_min = min_dist s, range_max = max_dist s\<rparr>]
        else [])"
  unfolding assms stagnation_correction_def Let_def
  by (simp add: adjust_bounds_fields log_probe_def keep_best_fields)

text \<open>
  What one pass of the older revision adds to the two logs, and how it can end.
\<close>

lemma stag_pass_trace:
  fixes g :: geodesic and la lo b lad lod dm :: real and s :: stag_search
  defines "fl \<equiv> stag_pass g la lo b lad lod dm s"
  defines "t \<equiv> (min_dist s + max_dist s) / 2"
  defines "e \<equiv> \<bar>to_dme g (point_at g la lo b t) lad lod - dm\<bar>"
  defines "e1 \<equiv> to_dme g (point_at g la lo b (min_dist s)) lad lod - dm"
    and "e2 \<equiv> to_dme g (point_at g la lo b (max_dist s)) lad lod - dm"
    and "c \<equiv> corrected_dist g la lo b lad lod dm t s"
  shows "\<exists>new x. probes (landed fl) = probes s @ new \<and> passes (landed fl) = passes s @ [x]
     \<and> map at_dist new =
         t # (if 1 \<le> e \<and> little_progress (prev_error s) e \<and> 5 \<le> stagnation_counter s
                 \<and> e1 \<noteq> e2 then [c] else [])
     \<and> mid_error x = e
     \<and> (fired x \<longleftrightarrow> 1 \<le> e \<and> little_progress (prev_error s) e \<and> 5 \<le> stagnation_counter s)
     \<and> (\<forall>q \<in> set new. measured g la lo b lad lod dm q)
     \<and> (\<forall>q \<in> set (butlast new). 1 \<le> abs_error_m q)
     \<and> (\<not> is_Break fl \<longrightarrow> (\<forall>q \<in> set new. 1 \<le> abs_error_m q) \<and> 1 \<le> mid_error x)
     \<and> (is_Break fl \<longrightarrow>
           abs_error_m (last new) < 1
           \<or> (\<not> fired x \<and> max_dist (landed fl) - min_dist (landed fl) < 0.000001))"
proof -
  define p where "p = point_at g la lo b t"
  define m where "m = to_dme g p lad lod"
  have e: "e = \<bar>m - dm\<bar>" by (simp add: e_def m_def p_def)
  define small where "small = little_progress (prev_error s) e"
  define s1 where "s1 = log_probe t p m e (keep_best e p s)"
  define c' where "c' = (if small then stagnation_counter s + 1 else 0)"
  have t: "t = (min_dist s + max_dist s) / 2" by (simp add: t_def)
  note eq = stag_pass_eq[OF t p_def m_def e small_def s1_def c'_def, folded fl_def]
  define qm where "qm = \<lparr>at_dist = t, at_point = p, to_dme_m = m,
        abs_error_m = e, range_min = min_dist s, range_max = max_dist s\<rparr>"
  have p1: "probes s1 = probes s @ [qm]"
    by (simp add: s1_def log_probe_def keep_best_fields qm_def)
  have mq: "measured g la lo b lad lod dm qm"
    by (simp add: measured_def qm_def p_def m_def e)
  have five: "c' > 5 \<longleftrightarrow> small \<and> 5 \<le> stagnation_counter s" by (auto simp: c'_def)
  consider (conv) "e < 1" | (fire) "\<not> e < 1" "c' > 5" | (plain) "\<not> e < 1" "\<not> c' > 5"
    by blast
  then show ?thesis
  proof cases
    case conv
    define x where "x = \<lparr>mid_error = e, small_change = small, fired = False\<rparr>"
    have "probes (landed fl) = probes s @ [qm]" "passes (landed fl) = passes s @ [x]"
      "is_Break fl"
      using conv by (simp_all add: eq p1 x_def)
    then show ?thesis using conv mq
      by (intro exI[of _ "[qm]"] exI[of _ x]) (simp add: qm_def x_def)
  next
    case fire
    define x where "x = \<lparr>mid_error = e, small_change = small, fired = True\<rparr>"
    define s2 where "s2 = s1\<lparr>stagnation_counter := c', passes := passes s @ [x]\<rparr>"
    have eq2: "fl = stagnation_correction g la lo b lad lod dm t m s2"
      using fire by (simp add: eq s2_def x_def)
    have rng: "min_dist s2 = min_dist s" "max_dist s2 = max_dist s"
      by (simp_all add: s2_def s1_def log_probe_fields keep_best_fields)
    have cc: "c = corrected_dist g la lo b lad lod dm t s2"
      unfolding c_def by (rule corrected_dist_range[symmetric]) (simp_all add: rng)
    define ec where "ec = \<bar>to_dme g (point_at g la lo b c) lad lod - dm\<bar>"
    define qc where "qc = \<lparr>at_dist = c, at_point = point_at g la lo b c,
               to_dme_m = to_dme g (point_at g la lo b c) lad lod,
               abs_error_m = ec, range_min = min_dist s, range_max = max_dist s\<rparr>"
    have e1': "e1 = to_dme g (point_at g la lo b (min_dist s2)) lad lod - dm"
      and e2': "e2 = to_dme g (point_at g la lo b (max_dist s2)) lad lod - dm"
      by (simp_all add: e1_def e2_def rng)
    have pr: "probes (landed fl) = probes s @ (qm # (if e1 \<noteq> e2 then [qc] else []))"
      unfolding eq2 correction_probes[OF e1' e2' cc] rng
      by (simp add: s2_def p1 qc_def ec_def)
    have ps: "passes (landed fl) = passes s @ [x]"
      unfolding eq2 by (simp add: correction_passes s2_def)
    have br: "is_Break fl \<longleftrightarrow> e1 \<noteq> e2 \<and> ec < 1"
      using correction_best[OF e1' e2' cc ec_def eq2] by simp
    have mc: "measured g la lo b lad lod dm qc"
      by (simp add: measured_def qc_def ec_def)
    have ge: "1 \<le> e" using fire by simp
    show ?thesis
      using pr ps br mq mc ge fire five
      by (intro exI[of _ "qm # (if e1 \<noteq> e2 then [qc] else [])"] exI[of _ x])
         (auto simp: qm_def qc_def x_def small_def)
  next
    case plain
    define x where "x = \<lparr>mid_error = e, small_change = small, fired = False\<rparr>"
    have "probes (landed fl) = probes s @ [qm]" "passes (landed fl) = passes s @ [x]"
      "is_Break fl \<longrightarrow> max_dist (landed fl) - min_dist (landed fl) < 0.000001"
      using plain by (simp_all add: eq p1 x_def)
    then show ?thesis using plain mq five
      by (intro exI[of _ "[qm]"] exI[of _ x]) (auto simp: qm_def x_def small_def)
  qed
qed

lemma stag_loop_trace:
  "\<exists>new xs. probes (stag_loop n g la lo b lad lod dm s) = probes s @ new
     \<and> passes (stag_loop n g la lo b lad lod dm s) = passes s @ xs
     \<and> length xs \<le> n \<and> (0 < n \<longrightarrow> xs \<noteq> [] \<and> new \<noteq> [])
     \<and> (\<forall>q \<in> set new. measured g la lo b lad lod dm q)
     \<and> (\<forall>q \<in> set (butlast new). 1 \<le> abs_error_m q)
     \<and> (\<forall>x \<in> set (butlast xs). 1 \<le> mid_error x)
     \<and> (length xs < n \<longrightarrow>
           abs_error_m (last new) < 1
           \<or> (\<not> fired (last xs)
               \<and> max_dist (stag_loop n g la lo b lad lod dm s)
                   - min_dist (stag_loop n g la lo b lad lod dm s) < 0.000001))"
proof (induction n arbitrary: s)
  case 0
  show ?case by simp
next
  case (Suc n)
  define fl where "fl = stag_pass g la lo b lad lod dm s"
  from stag_pass_trace[of g la lo b lad lod dm s, folded fl_def] obtain new1 x1 where
    p: "probes (landed fl) = probes s @ new1" "passes (landed fl) = passes s @ [x1]"
       "new1 \<noteq> []"
       "\<forall>q \<in> set new1. measured g la lo b lad lod dm q"
       "\<forall>q \<in> set (butlast new1). 1 \<le> abs_error_m q"
       "\<not> is_Break fl \<longrightarrow> (\<forall>q \<in> set new1. 1 \<le> abs_error_m q) \<and> 1 \<le> mid_error x1"
       "is_Break fl \<longrightarrow>
           abs_error_m (last new1) < 1
           \<or> (\<not> fired x1 \<and> max_dist (landed fl) - min_dist (landed fl) < 0.000001)"
    by (metis (no_types, lifting) list.map_disc_iff list.distinct(1))
  show ?case
  proof (cases fl)
    case (Break s1)
    then have l: "stag_loop (Suc n) g la lo b lad lod dm s = s1"
      by (simp add: fl_def[symmetric])
    show ?thesis unfolding l using p Break
      by (intro exI[of _ new1] exI[of _ "[x1]"]) simp
  next
    case (Next s1)
    then have l: "stag_loop (Suc n) g la lo b lad lod dm s = stag_loop n g la lo b lad lod dm s1"
      by (simp add: fl_def[symmetric])
    define s' where "s' = stag_loop n g la lo b lad lod dm s1"
    from Suc.IH[of s1, folded s'_def] obtain new2 xs2 where
      r: "probes s' = probes s1 @ new2" "passes s' = passes s1 @ xs2"
         "length xs2 \<le> n" "0 < n \<longrightarrow> xs2 \<noteq> [] \<and> new2 \<noteq> []"
         "\<forall>q \<in> set new2. measured g la lo b lad lod dm q"
         "\<forall>q \<in> set (butlast new2). 1 \<le> abs_error_m q"
         "\<forall>x \<in> set (butlast xs2). 1 \<le> mid_error x"
         "length xs2 < n \<longrightarrow>
           abs_error_m (last new2) < 1
           \<or> (\<not> fired (last xs2) \<and> max_dist s' - min_dist s' < 0.000001)"
      by blast
    have n1: "\<forall>q \<in> set new1. 1 \<le> abs_error_m q" "1 \<le> mid_error x1"
      using p(6) Next by simp_all
    have a: "probes s' = probes s @ (new1 @ new2)" "passes s' = passes s @ (x1 # xs2)"
      using r(1,2) p(1,2) Next by simp_all
    have b: "\<forall>q \<in> set (butlast (new1 @ new2)). 1 \<le> abs_error_m q"
      using n1(1) r(6) p(5) by (cases "new2 = []") (auto simp: butlast_append)
    have c: "\<forall>x \<in> set (butlast (x1 # xs2)). 1 \<le> mid_error x"
      using n1(2) r(7) by (cases xs2) auto
    have d: "length (x1 # xs2) < Suc n \<longrightarrow>
           abs_error_m (last (new1 @ new2)) < 1
           \<or> (\<not> fired (last (x1 # xs2)) \<and> max_dist s' - min_dist s' < 0.000001)"
    proof
      assume "length (x1 # xs2) < Suc n"
      then have lt: "length xs2 < n" by simp
      then have ne: "xs2 \<noteq> []" "new2 \<noteq> []" using r(4) by auto
      from r(8) lt have "abs_error_m (last new2) < 1
           \<or> (\<not> fired (last xs2) \<and> max_dist s' - min_dist s' < 0.000001)" by simp
      then show "abs_error_m (last (new1 @ new2)) < 1
           \<or> (\<not> fired (last (x1 # xs2)) \<and> max_dist s' - min_dist s' < 0.000001)"
        using ne by simp
    qed
    have m: "\<forall>q \<in> set (new1 @ new2). measured g la lo b lad lod dm q"
      using p(4) r(5) by auto
    show ?thesis unfolding l s'_def[symmetric]
      using a b c d m r(3) p(3)
      by (intro exI[of _ "new1 @ new2"] exI[of _ "x1 # xs2"]) simp
  qed
qed

text \<open>The whole function of the older revision, from its first line to the end of the loop.\<close>

lemma stag_intersection_search_run:
  fixes g :: geodesic and la lo b lad lod dn :: real
  defines "R \<equiv> stag_intersection_search g la lo b lad lod dn"
  shows "probes R \<noteq> [] \<and> 1 \<le> length (passes R) \<and> length (passes R) \<le> 200
     \<and> (\<forall>q \<in> set (probes R). measured g la lo b lad lod (nm_to_meters dn) q)
     \<and> (\<forall>q \<in> set (butlast (probes R)). 1 \<le> abs_error_m q)
     \<and> (\<forall>x \<in> set (butlast (passes R)). 1 \<le> mid_error x)
     \<and> (length (passes R) < 200 \<longrightarrow>
           abs_error_m (last (probes R)) < 1
           \<or> (\<not> fired (last (passes R)) \<and> max_dist R - min_dist R < 0.000001))
     \<and> tracked R"
proof -
  define s0 :: stag_search where "s0 =
     \<lparr>min_dist = fst (search_range_unchecked (meters_to_nm (s12 (Inverse g la lo lad lod))) dn),
      max_dist = snd (search_range_unchecked (meters_to_nm (s12 (Inverse g la lo lad lod))) dn),
      best_approx_distance = None, best_approx_point = \<lparr>lat = 0, lon = 0\<rparr>, probes = [],
      prev_error = None, stagnation_counter = 0, intersection_found = False, passes = []\<rparr>"
  have run: "R = stag_loop 200 g la lo b lad lod (nm_to_meters dn) s0"
    by (simp add: R_def stag_intersection_search_def Let_def split_beta s0_def
        MAX_ITERATIONS_def)
  have z: "probes s0 = []" "passes s0 = []" "tracked s0"
    by (simp_all add: s0_def tracked_def)
  from stag_loop_trace[of 200 g la lo b lad lod "nm_to_meters dn" s0, folded run]
  obtain new xs where
    r: "probes R = new" "passes R = xs" "length xs \<le> 200" "xs \<noteq> []" "new \<noteq> []"
       "\<forall>q \<in> set new. measured g la lo b lad lod (nm_to_meters dn) q"
       "\<forall>q \<in> set (butlast new). 1 \<le> abs_error_m q"
       "\<forall>x \<in> set (butlast xs). 1 \<le> mid_error x"
       "length xs < 200 \<longrightarrow>
           abs_error_m (last new) < 1
           \<or> (\<not> fired (last xs) \<and> max_dist R - min_dist R < 0.000001)"
    unfolding z by auto
  have "tracked R" unfolding run by (rule stag_loop_tracked) (rule z(3))
  moreover have "1 \<le> length xs" using r(4) by (cases xs) simp_all
  ultimately show ?thesis using r by simp
qed


section \<open>The best point and the end of the loop, in both revisions\<close>

text \<open>
  A run of the older revision on the strip: the FIX at the origin, the DME 1.6 nautical
  miles north of it, the radial due east and the target 1 nautical mile. The range starts
  as \<open>[0, 3.6]\<close>; every point of the radial is at least 1.6 nautical miles from the
  DME, so each midpoint is too far and the midpoints halve towards 0. The correction runs
  in pass 22; the secant point lies 0.6 nautical miles behind the FIX, outside the range.
  For the whole run: whether each pass ran the correction, the distances of the points
  whose \<^verbatim>\<open>error_m\<close> was computed, the point returned and its error.
\<close>

lemma corrected_run:
  "(let R = stag_intersection_search (strip 1) 0 0 90 (2/75) 0 1
    in (map fired (passes R), map at_dist (probes R), best_approx_point R,
        best_approx_distance R)) =
   ([False, False, False, False, False, False, False, False, False, False, False,
     False, False, False, False, False, False, False, False, False, False, True, False],
    [9 / 5, 9 / 10, 9 / 20, 9 / 40, 9 / 80, 9 / 160, 9 / 320, 9 / 640,
     9 / 1280, 9 / 2560, 9 / 5120, 9 / 10240, 9 / 20480, 9 / 40960, 9 / 81920,
     9 / 163840, 9 / 327680, 9 / 655360, 9 / 1310720, 9 / 2621440, 9 / 5242880,
     9 / 10485760, - (3 / 5), 11 / 10485760],
    \<lparr>lat = 0, lon = 3 / 209715200\<rparr>, Some (582589659 / 524288))"
  by (simp add: stag_intersection_search_def MAX_ITERATIONS_def stag_loop_unfold stag_pass_def
      point_at_def to_dme_def strip_def keep_best_def log_probe_def stagnation_correction_def
      corrected_dist_def adjust_bounds_def nm_to_meters_def meters_to_nm_def METERS_PER_NM_def
      DISTANCE_TOLERANCE_M_def search_range_unchecked_def Let_def)

text \<open>The same run after 21 passes, when pass 22 begins, and after 22 passes.\<close>

lemma corrected_run_21:
  "(let s = stag_loop 21 (strip 1) 0 0 90 (2/75) 0 1852
              \<lparr>min_dist = 0, max_dist = 18 / 5, best_approx_distance = None,
               best_approx_point = \<lparr>lat = 0, lon = 0\<rparr>, probes = [], prev_error = None,
               stagnation_counter = 0, intersection_found = False, passes = []\<rparr>
    in (min_dist s, max_dist s, stagnation_counter s)) = (0, 9 / 5242880, 5)"
  by (simp add: stag_loop_unfold stag_pass_def
      point_at_def to_dme_def strip_def keep_best_def log_probe_def stagnation_correction_def
      corrected_dist_def adjust_bounds_def nm_to_meters_def METERS_PER_NM_def
      DISTANCE_TOLERANCE_M_def Let_def)


lemma corrected_run_start:
  "stag_intersection_search (strip 1) 0 0 90 (2/75) 0 1 =
     stag_loop 200 (strip 1) 0 0 90 (2/75) 0 1852
       \<lparr>min_dist = 0, max_dist = 18 / 5, best_approx_distance = None,
        best_approx_point = \<lparr>lat = 0, lon = 0\<rparr>, probes = [], prev_error = None,
        stagnation_counter = 0, intersection_found = False, passes = []\<rparr>"
  by (simp add: stag_intersection_search_start strip_def search_range_unchecked_def)

lemma end_error:
  "to_dme (strip 1) (point_at (strip 1) 0 0 90 0) (2/75) 0 - 1852 = 5556 / 5"
  "\<bar>to_dme (strip 1) \<lparr>lat = 0, lon = 3 / 209715200\<rparr> (2/75) 0 - 1852\<bar> = 582589659 / 524288"
  by (simp_all add: to_dme_def point_at_def strip_def nm_to_meters_def METERS_PER_NM_def)


text \<open>
  Another one, with the DME 30 nautical miles east of the FIX and a target of 10: the loop
  ends in its 14th pass with a point 39.9998 nautical miles out, 0.68 m off.
\<close>

lemma converging_run:
  "find_radial_distance_intersection (strip 1) \<lparr>lat = 0, lon = 0\<rparr> 90
     \<lparr>lat = 0, lon = 1/2\<rparr> 10 = Inr \<lparr>lat = 0, lon = 327677 / 491520\<rparr>"
  by (simp add: find_radial_distance_intersection_def intersection_search_def
      MAX_ITERATIONS_def search_loop_unfold search_pass_def search_range_def strip_def
      new_Coordinates_def log_probe_def nm_to_meters_def meters_to_nm_def METERS_PER_NM_def
      DISTANCE_TOLERANCE_M_def Let_def)

lemma best_error:
  assumes "tracked s" "probes s \<noteq> []"
    "\<forall>q \<in> set (probes s). measured g la lo b lad lod dm q"
  shows "(\<exists>p \<in> set (probes s). best_approx_point s = at_point p)
     \<and> (\<forall>q \<in> set (probes s).
           \<bar>to_dme g (best_approx_point s) lad lod - dm\<bar> \<le> abs_error_m q)"
proof -
  from assms(1,2) obtain p where p: "p \<in> set (probes s)" "best_approx_point s = at_point p"
    "\<forall>q \<in> set (probes s). abs_error_m p \<le> abs_error_m q"
    by (auto simp: tracked_def)
  from assms(3) p(1) have "measured g la lo b lad lod dm p" by blast
  then have "\<bar>to_dme g (best_approx_point s) lad lod - dm\<bar> = abs_error_m p"
    by (simp add: measured_def p(2))
  with p show ?thesis by auto
qed

text \<open>
  C1, as the code has it. In both revisions the point returned is one of the points whose
  \<^verbatim>\<open>error_m\<close> the loop computed, and its error, the absolute difference between its
  distance to the DME and the target, is at most the error of every such point. These
  points are the midpoint of the range in every pass and, in the older revision, the secant
  point of a correction whose two end errors differ; each is logged with what the oracle
  gave for it. The two ends of the range, which a correction of the older revision also
  evaluates, are not among them. \<^verbatim>\<open>_find_radial_distance_intersection\<close> of
  \<^verbatim>\<open>vor_fix_calculation.py\<close> returns in this way unless \<^verbatim>\<open>Coordinates\<close> rejects
  a point that the oracle gave along the radial, and then it raises that error; the older
  revision always returns.
\<close>

theorem best_point_returned:
  fixes g :: geodesic and fix_coords dme_coords :: Coordinates
    and true_bearing distance_nm distance_m :: real and s :: search and ss R :: stag_search
    and t e error_1 error_2 c :: real
  defines "R \<equiv> stag_intersection_search g (lat fix_coords) (lon fix_coords) true_bearing
                 (lat dme_coords) (lon dme_coords) distance_nm"
  defines "t \<equiv> (min_dist ss + max_dist ss) / 2"
  defines "e \<equiv> \<bar>to_dme g (point_at g (lat fix_coords) (lon fix_coords) true_bearing t)
                    (lat dme_coords) (lon dme_coords) - distance_m\<bar>"
  defines "error_1 \<equiv>
      to_dme g (point_at g (lat fix_coords) (lon fix_coords) true_bearing (min_dist ss))
        (lat dme_coords) (lon dme_coords) - distance_m"
    and "error_2 \<equiv>
      to_dme g (point_at g (lat fix_coords) (lon fix_coords) true_bearing (max_dist ss))
        (lat dme_coords) (lon dme_coords) - distance_m"
    and "c \<equiv> corrected_dist g (lat fix_coords) (lon fix_coords) true_bearing
                (lat dme_coords) (lon dme_coords) distance_m t ss"
  shows
  "(case intersection_search g fix_coords true_bearing dme_coords distance_nm of
      Inl err \<Rightarrow>
        find_radial_distance_intersection g fix_coords true_bearing dme_coords distance_nm
          = Inl err
        \<and> (\<exists>d. new_Coordinates
                  (lat2 (Direct g (lat fix_coords) (lon fix_coords) true_bearing
                           (nm_to_meters d)))
                  (lon2 (Direct g (lat fix_coords) (lon fix_coords) true_bearing
                           (nm_to_meters d))) = Inl err)
    | Inr s' \<Rightarrow>
        find_radial_distance_intersection g fix_coords true_bearing dme_coords distance_nm
          = Inr (best_approx_point s')
        \<and> probes s' \<noteq> []
        \<and> (\<forall>q \<in> set (probes s').
              measured g (lat fix_coords) (lon fix_coords) true_bearing
                (lat dme_coords) (lon dme_coords) (nm_to_meters distance_nm) q)
        \<and> (\<exists>p \<in> set (probes s'). best_approx_point s' = at_point p)
        \<and> (\<forall>q \<in> set (probes s').
              \<bar>to_dme g (best_approx_point s') (lat dme_coords) (lon dme_coords)
                 - nm_to_meters distance_nm\<bar> \<le> abs_error_m q))
   \<and> (\<forall>fl. search_pass g fix_coords true_bearing dme_coords distance_m s = Inr fl \<longrightarrow>
         (\<exists>q. probes (landed fl) = probes s @ [q]
             \<and> at_dist q = (min_dist s + max_dist s) / 2))
   \<and> stag_find_radial_distance_intersection g (lat fix_coords) (lon fix_coords) true_bearing
         (lat dme_coords) (lon dme_coords) distance_nm = best_approx_point R
   \<and> probes R \<noteq> []
   \<and> (\<forall>q \<in> set (probes R).
         measured g (lat fix_coords) (lon fix_coords) true_bearing
           (lat dme_coords) (lon dme_coords) (nm_to_meters distance_nm) q)
   \<and> (\<exists>p \<in> set (probes R). best_approx_point R = at_point p)
   \<and> (\<forall>q \<in> set (probes R).
         \<bar>to_dme g (best_approx_point R) (lat dme_coords) (lon dme_coords)
            - nm_to_meters distance_nm\<bar> \<le> abs_error_m q)
   \<and> (\<exists>new. probes (landed (stag_pass g (lat fix_coords) (lon fix_coords) true_bearing
                               (lat dme_coords) (lon dme_coords) distance_m ss))
               = probes ss @ new
           \<and> map at_dist new =
               t # (if 1 \<le> e \<and> little_progress (prev_error ss) e
                        \<and> 5 \<le> stagnation_counter ss \<and> error_1 \<noteq> error_2
                    then [c] else []))"
proof -
  have a: "case intersection_search g fix_coords true_bearing dme_coords distance_nm of
      Inl err \<Rightarrow>
        find_radial_distance_intersection g fix_coords true_bearing dme_coords distance_nm
          = Inl err
        \<and> (\<exists>d. new_Coordinates
                  (lat2 (Direct g (lat fix_coords) (lon fix_coords) true_bearing
                           (nm_to_meters d)))
                  (lon2 (Direct g (lat fix_coords) (lon fix_coords) true_bearing
                           (nm_to_meters d))) = Inl err)
    | Inr s' \<Rightarrow>
        find_radial_distance_intersection g fix_coords true_bearing dme_coords distance_nm
          = Inr (best_approx_point s')
        \<and> probes s' \<noteq> []
        \<and> (\<forall>q \<in> set (probes s').
              measured g (lat fix_coords) (lon fix_coords) true_bearing
                (lat dme_coords) (lon dme_coords) (nm_to_meters distance_nm) q)
        \<and> (\<exists>p \<in> set (probes s'). best_approx_point s' = at_point p)
        \<and> (\<forall>q \<in> set (probes s').
              \<bar>to_dme g (best_approx_point s') (lat dme_coords) (lon dme_coords)
                 - nm_to_meters distance_nm\<bar> \<le> abs_error_m q)"
  proof (cases "intersection_search g fix_coords true_bearing dme_coords distance_nm")
    case (Inl err)
    from intersection_search_raises[OF Inl] show ?thesis by (simp add: Inl)
  next
    case (Inr s')
    note r = intersection_search_run[OF Inr]
    from r have m: "\<forall>q \<in> set (probes s').
              measured g (lat fix_coords) (lon fix_coords) true_bearing
                (lat dme_coords) (lon dme_coords) (nm_to_meters distance_nm) q"
      and ne: "probes s' \<noteq> []" and tr: "tracked s'" by simp_all
    from best_error[OF tr ne m] r show ?thesis by (simp add: Inr)
  qed
  have b: "\<forall>fl. search_pass g fix_coords true_bearing dme_coords distance_m s = Inr fl \<longrightarrow>
         (\<exists>q. probes (landed fl) = probes s @ [q]
             \<and> at_dist q = (min_dist s + max_dist s) / 2)"
    using search_pass_effect by blast
  note r = stag_intersection_search_run[of g "lat fix_coords" "lon fix_coords" true_bearing
      "lat dme_coords" "lon dme_coords" distance_nm, folded R_def]
  from r have m: "\<forall>q \<in> set (probes R).
         measured g (lat fix_coords) (lon fix_coords) true_bearing
           (lat dme_coords) (lon dme_coords) (nm_to_meters distance_nm) q"
    and ne: "probes R \<noteq> []" and tr: "tracked R" by simp_all
  note be = best_error[OF tr ne m]
  have f: "stag_find_radial_distance_intersection g (lat fix_coords) (lon fix_coords)
         true_bearing (lat dme_coords) (lon dme_coords) distance_nm = best_approx_point R"
    by (simp add: stag_find_radial_distance_intersection_def R_def)
  have l: "\<exists>new. probes (landed (stag_pass g (lat fix_coords) (lon fix_coords) true_bearing
                               (lat dme_coords) (lon dme_coords) distance_m ss))
               = probes ss @ new
           \<and> map at_dist new =
               t # (if 1 \<le> e \<and> little_progress (prev_error ss) e
                        \<and> 5 \<le> stagnation_counter ss \<and> error_1 \<noteq> error_2
                    then [c] else [])"
    using stag_pass_trace[of g "lat fix_coords" "lon fix_coords" true_bearing
        "lat dme_coords" "lon dme_coords" distance_m ss]
    unfolding t_def e_def error_1_def error_2_def c_def
    apply (elim exE conjE)
    apply (rule exI)
    apply (intro conjI)
     apply assumption+
    done
  from a b f ne m be l show ?thesis by (intro conjI) blast+
qed

text \<open>
  The run of \<^verbatim>\<open>_find_radial_distance_intersection\<close> that ends in its 14th pass, and
  the run of the older revision above: each returns a point whose error is at most that of
  every logged point.
\<close>

theorem best_point_returned_witness:
  "find_radial_distance_intersection (strip 1) \<lparr>lat = 0, lon = 0\<rparr> 90 \<lparr>lat = 0, lon = 1/2\<rparr> 10
        = Inr \<lparr>lat = 0, lon = 327677 / 491520\<rparr>
   \<and> (\<exists>s. intersection_search (strip 1) \<lparr>lat = 0, lon = 0\<rparr> 90 \<lparr>lat = 0, lon = 1/2\<rparr> 10 = Inr s
        \<and> (\<forall>q \<in> set (probes s).
              \<bar>to_dme (strip 1) \<lparr>lat = 0, lon = 327677 / 491520\<rparr> 0 (1/2) - nm_to_meters 10\<bar>
                \<le> abs_error_m q))
   \<and> stag_find_radial_distance_intersection (strip 1) 0 0 90 (2/75) 0 1
        = \<lparr>lat = 0, lon = 3 / 209715200\<rparr>
   \<and> list_all (\<lambda>q. \<bar>to_dme (strip 1) \<lparr>lat = 0, lon = 3 / 209715200\<rparr> (2/75) 0
                        - nm_to_meters 1\<bar> \<le> abs_error_m q)
        (probes (stag_intersection_search (strip 1) 0 0 90 (2/75) 0 1))"
proof -
  define I where
    "I = intersection_search (strip 1) \<lparr>lat = 0, lon = 0\<rparr> 90 \<lparr>lat = 0, lon = 1/2\<rparr> 10"
  define F where
    "F = find_radial_distance_intersection (strip 1) \<lparr>lat = 0, lon = 0\<rparr> 90
           \<lparr>lat = 0, lon = 1/2\<rparr> 10"
  have v: "F = Inr \<lparr>lat = 0, lon = 327677 / 491520\<rparr>"
    unfolding F_def by (rule converging_run)
  note t = best_point_returned[of "strip 1" "\<lparr>lat = 0, lon = 0\<rparr>" 90 "\<lparr>lat = 0, lon = 1/2\<rparr>" 10,
      THEN conjunct1, folded I_def F_def]
  have "\<exists>s. I = Inr s
        \<and> (\<forall>q \<in> set (probes s).
              \<bar>to_dme (strip 1) \<lparr>lat = 0, lon = 327677 / 491520\<rparr> 0 (1/2) - nm_to_meters 10\<bar>
                \<le> abs_error_m q)"
  proof (cases I)
    case (Inl err)
    with t v show ?thesis by simp
  next
    case (Inr s)
    with t v have "best_approx_point s = \<lparr>lat = 0, lon = 327677 / 491520\<rparr>"
      "\<forall>q \<in> set (probes s).
          \<bar>to_dme (strip 1) (best_approx_point s) (lat \<lparr>lat = 0, lon = 1/2\<rparr>)
              (lon \<lparr>lat = 0::real, lon = 1/2\<rparr>) - nm_to_meters 10\<bar> \<le> abs_error_m q"
      by simp_all
    then show ?thesis using Inr by simp
  qed
  then have a: "\<exists>s. intersection_search (strip 1) \<lparr>lat = 0, lon = 0\<rparr> 90
        \<lparr>lat = 0, lon = 1/2\<rparr> 10 = Inr s
        \<and> (\<forall>q \<in> set (probes s).
              \<bar>to_dme (strip 1) \<lparr>lat = 0, lon = 327677 / 491520\<rparr> 0 (1/2) - nm_to_meters 10\<bar>
                \<le> abs_error_m q)"
    unfolding I_def .
  define R where "R = stag_intersection_search (strip 1) 0 0 90 (2/75) 0 1"
  from corrected_run[unfolded Let_def, folded R_def]
  have bp: "best_approx_point R = \<lparr>lat = 0, lon = 3 / 209715200\<rparr>" by simp
  note u = best_point_returned[of "strip 1" "\<lparr>lat = 0, lon = 0\<rparr>" 90
      "\<lparr>lat = 2/75, lon = 0\<rparr>" 1, THEN conjunct2, THEN conjunct2]
  have sel: "lat \<lparr>lat = 0::real, lon = 0::real\<rparr> = 0" "lon \<lparr>lat = 0::real, lon = 0::real\<rparr> = 0"
    "lat \<lparr>lat = 2/75::real, lon = 0::real\<rparr> = 2/75" "lon \<lparr>lat = 2/75::real, lon = 0::real\<rparr> = 0"
    by simp_all
  note u' = u[unfolded sel, folded R_def]
  have b: "stag_find_radial_distance_intersection (strip 1) 0 0 90 (2/75) 0 1
        = \<lparr>lat = 0, lon = 3 / 209715200\<rparr>"
    using u'[THEN conjunct1] bp by simp
  have "\<forall>q \<in> set (probes R).
         \<bar>to_dme (strip 1) (best_approx_point R) (2/75) 0 - nm_to_meters 1\<bar> \<le> abs_error_m q"
    using u' by blast
  then have c: "list_all (\<lambda>q. \<bar>to_dme (strip 1) \<lparr>lat = 0, lon = 3 / 209715200\<rparr> (2/75) 0
                        - nm_to_meters 1\<bar> \<le> abs_error_m q) (probes R)"
    unfolding bp by (simp add: list_all_iff)
  from v a b c show ?thesis unfolding F_def R_def by (intro conjI)
qed

text \<open>
  C1 as stated fails in the older revision. In the run above the correction runs in pass 22
  on the range \<open>[0, 9 / 5242880]\<close> and evaluates the point at distance 0, the FIX itself,
  where the signed error \<^verbatim>\<open>error_1\<close> is 1111.2 m. That point is not compared with the
  best point: the function returns the midpoint of pass 22, whose error is about
  1111.2016 m, although it has evaluated a point with a smaller error.
\<close>

theorem best_point_range_end_counterexample:
  "map fired (passes (stag_intersection_search (strip 1) 0 0 90 (2/75) 0 1)) =
     [False, False, False, False, False, False, False, False, False, False, False,
      False, False, False, False, False, False, False, False, False, False, True, False]
   \<and> stag_intersection_search (strip 1) 0 0 90 (2/75) 0 1 =
       stag_loop 200 (strip 1) 0 0 90 (2/75) 0 1852
         \<lparr>min_dist = 0, max_dist = 18 / 5, best_approx_distance = None,
          best_approx_point = \<lparr>lat = 0, lon = 0\<rparr>, probes = [], prev_error = None,
          stagnation_counter = 0, intersection_found = False, passes = []\<rparr>
   \<and> min_dist (stag_loop 21 (strip 1) 0 0 90 (2/75) 0 1852
         \<lparr>min_dist = 0, max_dist = 18 / 5, best_approx_distance = None,
          best_approx_point = \<lparr>lat = 0, lon = 0\<rparr>, probes = [], prev_error = None,
          stagnation_counter = 0, intersection_found = False, passes = []\<rparr>) = 0
   \<and> to_dme (strip 1) (point_at (strip 1) 0 0 90 0) (2/75) 0 - 1852 = 5556 / 5
   \<and> stag_find_radial_distance_intersection (strip 1) 0 0 90 (2/75) 0 1
       = \<lparr>lat = 0, lon = 3 / 209715200\<rparr>
   \<and> \<bar>to_dme (strip 1) \<lparr>lat = 0, lon = 3 / 209715200\<rparr> (2/75) 0 - 1852\<bar>
       = 582589659 / 524288
   \<and> (5556 / 5 :: real) < 582589659 / 524288"
proof -
  define R where "R = stag_intersection_search (strip 1) 0 0 90 (2/75) 0 1"
  note r = corrected_run[unfolded Let_def, folded R_def]
  have a: "map fired (passes R) =
     [False, False, False, False, False, False, False, False, False, False, False,
      False, False, False, False, False, False, False, False, False, False, True, False]"
    using r by simp
  have b: "stag_find_radial_distance_intersection (strip 1) 0 0 90 (2/75) 0 1
       = \<lparr>lat = 0, lon = 3 / 209715200\<rparr>"
    unfolding stag_find_radial_distance_intersection_def R_def[symmetric] using r by simp
  define S where "S = stag_loop 21 (strip 1) 0 0 90 (2/75) 0 1852
         \<lparr>min_dist = 0, max_dist = 18 / 5, best_approx_distance = None,
          best_approx_point = \<lparr>lat = 0, lon = 0\<rparr>, probes = [], prev_error = None,
          stagnation_counter = 0, intersection_found = False, passes = []\<rparr>"
  have c: "min_dist S = 0" using corrected_run_21[unfolded Let_def, folded S_def] by simp
  have d: "(5556 / 5 :: real) < 582589659 / 524288" by simp
  from a corrected_run_start c end_error(1) b end_error(2) d
  show ?thesis unfolding R_def S_def by (intro conjI)
qed




section \<open>Forward projection in \<^verbatim>\<open>core_vor_calc.py\<close>\<close>

text \<open>
  The variant of \<^verbatim>\<open>core_vor_calc.py\<close> returns the single-step point after its two
  first calls whenever the verified error is at most 1.0 m, not 0.1 m. At 1000 nautical
  miles with an \<^verbatim>\<open>Inverse\<close> that is off by two parts in ten million the verified
  error is 0.3704 m: this variant returns at once, the one of
  \<^verbatim>\<open>vor_fix_calculation.py\<close> walks two steps of 926000 m.
\<close>

lemma core_project_within_tolerance:
  assumes "new_Coordinates_core
             (lat2 (Direct g (lat start_coords) (lon start_coords) azimuth (nm_to_meters distance_nm)))
             (lon2 (Direct g (lat start_coords) (lon start_coords) azimuth (nm_to_meters distance_nm)))
           = Inr initial_coords"
    and "\<bar>s12 (Inverse g (lat start_coords) (lon start_coords)
            (lat2 (Direct g (lat start_coords) (lon start_coords) azimuth (nm_to_meters distance_nm)))
            (lon2 (Direct g (lat start_coords) (lon start_coords) azimuth (nm_to_meters distance_nm))))
          - nm_to_meters distance_nm\<bar> \<le> 1"
  shows "calculate_target_coords_geodesic_core g start_coords azimuth distance_nm =
     (Inr initial_coords,
      [DirectCall (lat start_coords) (lon start_coords) azimuth (nm_to_meters distance_nm),
       InverseCall (lat start_coords) (lon start_coords)
         (lat2 (Direct g (lat start_coords) (lon start_coords) azimuth (nm_to_meters distance_nm)))
         (lon2 (Direct g (lat start_coords) (lon start_coords) azimuth (nm_to_meters distance_nm)))])"
  using assms
  by (simp add: calculate_target_coords_geodesic_core_def Let_def DISTANCE_TOLERANCE_M_def)

lemma core_project_differs:
  "\<bar>s12 (Inverse (strip 1.0000002) 0 0 0 (50/3)) - nm_to_meters 1000\<bar> = 0.3704
   \<and> calculate_target_coords_geodesic_core (strip 1.0000002) \<lparr>lat = 0, lon = 0\<rparr> 90 1000 =
       (Inr \<lparr>lat = 0, lon = 50/3\<rparr>, [DirectCall 0 0 90 1852000, InverseCall 0 0 0 (50/3)])
   \<and> calculate_target_coords_geodesic (strip 1.0000002) \<lparr>lat = 0, lon = 0\<rparr> 90 1000 =
       (Inr \<lparr>lat = 0, lon = 50/3\<rparr>,
        [DirectCall 0 0 90 1852000, InverseCall 0 0 0 (50/3),
         DirectCall 0 0 90 926000, DirectCall 0 (25/3) 90 926000])"
  by (simp add: calculate_target_coords_geodesic_core_def calculate_target_coords_geodesic_def
      Let_def strip_def nm_to_meters_def METERS_PER_NM_def new_Coordinates_def
      new_Coordinates_core_def DISTANCE_TOLERANCE_M_def py_int_def numeral_2_eq_2)

end
